theory Spec2Isabelle
  imports Main
begin

section \<open>Backup sync and verification (gateway/sync.ts)\<close>

text \<open>
  A shallow embedding of \<^verbatim>\<open>syncToR2\<close> and \<^verbatim>\<open>verifyR2Backup\<close>.
  Both are asynchronous TypeScript functions that talk to a sandbox: they spawn shell
  commands, wait for them and read their logs. The sandbox is modelled by explicit state
  passing over an arbitrary state type \<open>'s\<close>; every call that can reject its promise
  returns a sum, \<open>Inl\<close> carrying the thrown value. Each function also returns the list
  of calls it made, in order, with their outcomes.

  A JavaScript string is a list of code units. Isabelle's \<open>char\<close> covers the code units
  U+0000 to U+00FF; the commands and messages of the source are all in that range.
\<close>

subsection \<open>Strings\<close>

definition nl :: char where
  "nl = CHR 0x0A"

definition dq :: char where
  "dq = CHR 0x22"

definition sq :: char where
  "sq = CHR 0x27"

text \<open>White space and line terminators removed by \<^verbatim>\<open>String.prototype.trim\<close>, as far
  as they lie below U+0100: TAB, LF, VT, FF, CR, SP and NBSP.\<close>

definition is_ws :: "char \<Rightarrow> bool" where
  "is_ws c = (c \<in> {CHR 0x09, CHR 0x0A, CHR 0x0B, CHR 0x0C, CHR 0x0D, CHR 0x20, CHR 0xA0})"

definition trim :: "string \<Rightarrow> string" where
  "trim s = rev (dropWhile is_ws (rev (dropWhile is_ws s)))"

text \<open>\<^verbatim>\<open>s.includes(sub)\<close>: \<open>sub\<close> occurs in \<open>s\<close> as a contiguous block.\<close>

fun includes_str :: "string \<Rightarrow> string \<Rightarrow> bool" where
  "includes_str [] sub = (sub = [])"
| "includes_str (x # xs) sub = (take (length sub) (x # xs) = sub \<or> includes_str xs sub)"

text \<open>\<^verbatim>\<open>s.split(c)\<close> for a one-character separator: never the empty list.\<close>

fun split_on :: "char \<Rightarrow> string \<Rightarrow> string list" where
  "split_on c [] = [[]]"
| "split_on c (x # xs) =
     (if x = c then [] # split_on c xs
      else (case split_on c xs of [] \<Rightarrow> [[x]] | w # ws \<Rightarrow> (x # w) # ws))"

definition is_digit :: "char \<Rightarrow> bool" where
  "is_digit c = (c \<in> set ''0123456789'')"

definition digit_val :: "char \<Rightarrow> int" where
  "digit_val c = int (of_char c) - 48"

text \<open>
  A JavaScript number that holds an integer: \<open>to_double n\<close> is the double nearest to \<open>n\<close>,
  ties going to the even mantissa. Below \<open>2^53\<close> every integer is its own double. (At
  \<open>2^1024\<close> and beyond the number is \<^verbatim>\<open>Infinity\<close>, which has no integer value: a
  decimal of more than 308 digits is outside this model.)
\<close>

fun bitlen :: "nat \<Rightarrow> nat" where
  "bitlen n = (if n = 0 then 0 else Suc (bitlen (n div 2)))"

definition to_double :: "int \<Rightarrow> int" where
  "to_double n =
     (let a = nat \<bar>n\<bar> in
      if a < 2 ^ 53 then n
      else
        let sh = bitlen a - 53;
            q = a div 2 ^ sh;
            r = a mod 2 ^ sh;
            q' = (if 2 * r > 2 ^ sh \<or> (2 * r = 2 ^ sh \<and> odd q) then q + 1 else q)
        in (if n < 0 then - int (q' * 2 ^ sh) else int (q' * 2 ^ sh)))"

text \<open>
  \<^verbatim>\<open>parseInt(s, 10)\<close>: leading white space is skipped, one sign is accepted, then the
  longest run of decimal digits is read and its value converted to a number; with no
  digit the result is NaN (\<open>None\<close>).
\<close>

definition parseInt :: "string \<Rightarrow> int option" where
  "parseInt s =
     (let t = dropWhile is_ws s;
          neg = (t \<noteq> [] \<and> hd t = CHR ''-'');
          u = (if t \<noteq> [] \<and> (hd t = CHR ''-'' \<or> hd t = CHR ''+'') then tl t else t);
          ds = takeWhile is_digit u;
          n = foldl (\<lambda>a c. 10 * a + digit_val c) 0 ds
      in if ds = [] then None else Some (to_double (if neg then - n else n)))"

text \<open>The regular expression \<^verbatim>\<open>/^\d{4}-\d{2}-\d{2}/\<close>: it looks at the first ten
  characters only.\<close>

fun date_prefixed :: "string \<Rightarrow> bool" where
  "date_prefixed (y1 # y2 # y3 # y4 # h1 # m1 # m2 # h2 # d1 # d2 # rest) =
     (is_digit y1 \<and> is_digit y2 \<and> is_digit y3 \<and> is_digit y4 \<and> h1 = CHR ''-'' \<and>
      is_digit m1 \<and> is_digit m2 \<and> h2 = CHR ''-'' \<and> is_digit d1 \<and> is_digit d2)"
| "date_prefixed s = False"

subsection \<open>Data model\<close>

record SyncResult =
  success :: bool
  lastSync :: "string option"
  error :: "string option"
  details :: "string option"

record ManifestEntry =
  path :: string
  checksum :: string
  size_bytes :: int

record BackupManifest =
  version :: int
  timestamp :: string
  entries :: "ManifestEntry list"

record VerifyResult =
  valid :: bool
  errors :: "string list"

text \<open>The three bindings of the worker environment that the two functions read; each may
  be absent.\<close>

record MoltbotEnv =
  R2_ACCESS_KEY_ID :: "string option"
  R2_SECRET_ACCESS_KEY :: "string option"
  CF_ACCOUNT_ID :: "string option"

text \<open>\<^verbatim>\<open>!v\<close> for an optional string: absent or empty.\<close>

definition falsy :: "string option \<Rightarrow> bool" where
  "falsy v = (case v of None \<Rightarrow> True | Some s \<Rightarrow> s = [])"

text \<open>\<^verbatim>\<open>a || b\<close> on optional strings.\<close>

definition or_else :: "string option \<Rightarrow> string option \<Rightarrow> string option" where
  "or_else a b = (if falsy a then b else a)"

text \<open>What \<^verbatim>\<open>getLogs()\<close> resolves to.\<close>

record logs =
  stdout :: "string option"
  stderr :: "string option"

text \<open>A thrown value: an \<^verbatim>\<open>Error\<close> with its message, or anything else.\<close>

datatype exn = Error string | NonError

definition message_or :: "exn \<Rightarrow> string \<Rightarrow> string" where
  "message_or e dflt = (case e of Error m \<Rightarrow> m | NonError \<Rightarrow> dflt)"

subsection \<open>The sandbox and the other imports\<close>

text \<open>
  What the module imports and what the runtime provides, as parameters over a sandbox
  state \<open>'s\<close> and a type \<open>'p\<close> of process handles.

  \<^item> \<open>R2_MOUNT_PATH\<close> is the constant of \<^verbatim>\<open>../config\<close>.
  \<^item> \<open>startProcess\<close>, \<open>getLogs\<close>, \<open>exitCode\<close> and \<open>readFile\<close> are the sandbox's;
    \<open>exitCode\<close> is the status a finished process carries and \<open>readFile\<close> the content of
    a file of the sandbox, if it exists. Neither function ever reads these two: they are
    there to say what a command did.
  \<^item> \<open>waitForProcess\<close> is the helper of \<^verbatim>\<open>./utils\<close>, taking a time limit in
    milliseconds; like the other two calls it may fail.
  \<^item> \<open>Date_toISOString\<close> is \<^verbatim>\<open>new Date().toISOString()\<close>; \<open>JSON_stringify\<close> is
    \<^verbatim>\<open>JSON.stringify(manifest, null, 2)\<close>; \<open>JSON_parse\<close> is \<^verbatim>\<open>JSON.parse\<close> at the
    declared type \<^verbatim>\<open>BackupManifest\<close>, throwing on text that is not JSON.
  \<^item> \<open>mountR2Storage\<close>: Modelled from the spec: the function of \<^verbatim>\<open>./r2\<close> is not
    among the sources; its contract is \<^verbatim>\<open>ensureMounted(config) -> bool\<close>, so it
    returns a boolean and a new sandbox state.
\<close>

record ('s, 'p) deps =
  R2_MOUNT_PATH :: string
  mountR2Storage :: "MoltbotEnv \<Rightarrow> 's \<Rightarrow> bool \<times> 's"
  startProcess :: "string \<Rightarrow> 's \<Rightarrow> (exn + 'p) \<times> 's"
  waitForProcess :: "'p \<Rightarrow> nat \<Rightarrow> 's \<Rightarrow> (exn + unit) \<times> 's"
  getLogs :: "'p \<Rightarrow> 's \<Rightarrow> (exn + logs) \<times> 's"
  exitCode :: "'p \<Rightarrow> 's \<Rightarrow> int option"
  readFile :: "string \<Rightarrow> 's \<Rightarrow> string option"
  Date_toISOString :: "'s \<Rightarrow> string"
  JSON_stringify :: "BackupManifest \<Rightarrow> string"
  JSON_parse :: "string \<Rightarrow> exn + BackupManifest"

text \<open>One call made to the outside, with what it answered.\<close>

datatype 'p event =
    MountCall bool
  | StartCall string "exn + 'p"
  | WaitCall 'p nat "exn + unit"
  | LogsCall 'p "exn + logs"

text \<open>A computation: from a sandbox state to a value or a thrown exception, the new
  state, and the calls made.\<close>

type_synonym ('s, 'p, 'a) prog = "'s \<Rightarrow> (exn + 'a) \<times> 's \<times> 'p event list"

definition ret :: "'a \<Rightarrow> ('s, 'p, 'a) prog" where
  "ret a = (\<lambda>s. (Inr a, s, []))"

text \<open>Sequencing (\<^verbatim>\<open>await\<close> then continue): an exception skips the rest.\<close>

definition seq :: "('s, 'p, 'a) prog \<Rightarrow> ('a \<Rightarrow> ('s, 'p, 'b) prog) \<Rightarrow> ('s, 'p, 'b) prog" where
  "seq m f = (\<lambda>s. case m s of
       (Inl e, s', t) \<Rightarrow> (Inl e, s', t)
     | (Inr a, s', t) \<Rightarrow> (case f a s' of (r, s'', t') \<Rightarrow> (r, s'', t @ t')))"

text \<open>\<^verbatim>\<open>try { m } catch (err) { h err }\<close>.\<close>

definition try_catch :: "('s, 'p, 'a) prog \<Rightarrow> (exn \<Rightarrow> ('s, 'p, 'a) prog) \<Rightarrow> ('s, 'p, 'a) prog" where
  "try_catch m h = (\<lambda>s. case m s of
       (Inl e, s', t) \<Rightarrow> (case h e s' of (r, s'', t') \<Rightarrow> (r, s'', t @ t'))
     | (Inr a, s', t) \<Rightarrow> (Inr a, s', t))"

definition call_mount :: "('s, 'p) deps \<Rightarrow> MoltbotEnv \<Rightarrow> ('s, 'p, bool) prog" where
  "call_mount d env = (\<lambda>s. case mountR2Storage d env s of
       (b, s') \<Rightarrow> (Inr b, s', [MountCall b]))"

definition call_start :: "('s, 'p) deps \<Rightarrow> string \<Rightarrow> ('s, 'p, 'p) prog" where
  "call_start d cmd = (\<lambda>s. case startProcess d cmd s of
       (r, s') \<Rightarrow> (r, s', [StartCall cmd r]))"

definition call_wait :: "('s, 'p) deps \<Rightarrow> 'p \<Rightarrow> nat \<Rightarrow> ('s, 'p, unit) prog" where
  "call_wait d p ms = (\<lambda>s. case waitForProcess d p ms s of
       (r, s') \<Rightarrow> (r, s', [WaitCall p ms r]))"

definition call_logs :: "('s, 'p) deps \<Rightarrow> 'p \<Rightarrow> ('s, 'p, logs) prog" where
  "call_logs d p = (\<lambda>s. case getLogs d p s of
       (r, s') \<Rightarrow> (r, s', [LogsCall p r]))"

text \<open>The commands a list of calls started, in order.\<close>

fun started :: "'p event list \<Rightarrow> string list" where
  "started [] = []"
| "started (StartCall cmd r # t) = cmd # started t"
| "started (e # t) = started t"

subsection \<open>The commands\<close>

definition checkCmd :: string where
  "checkCmd = ''test -f /root/.clawdbot/clawdbot.json && echo '' @ [dq] @ ''ok'' @ [dq]"

definition backupDir :: "('s, 'p) deps \<Rightarrow> string" where
  "backupDir d = R2_MOUNT_PATH d @ ''/clawdbot''"

definition backupDirPrev :: "('s, 'p) deps \<Rightarrow> string" where
  "backupDirPrev d = R2_MOUNT_PATH d @ ''/clawdbot.prev''"

definition skillsDir :: "('s, 'p) deps \<Rightarrow> string" where
  "skillsDir d = R2_MOUNT_PATH d @ ''/skills''"

definition skillsDirPrev :: "('s, 'p) deps \<Rightarrow> string" where
  "skillsDirPrev d = R2_MOUNT_PATH d @ ''/skills.prev''"

text \<open>One \<^verbatim>\<open>if [ -d cur ]; then rm -rf prev; cp -a cur prev; fi\<close> block of the
  rotation script, with the indentation of the template.\<close>

definition rotateBlock :: "string \<Rightarrow> string \<Rightarrow> string" where
  "rotateBlock cur prev =
     ''    if [ -d '' @ [dq] @ cur @ [dq] @ '' ]; then'' @ [nl] @
     ''      rm -rf '' @ [dq] @ prev @ [dq] @ '' 2>/dev/null || true'' @ [nl] @
     ''      cp -a '' @ [dq] @ cur @ [dq] @ '' '' @ [dq] @ prev @ [dq] @
       '' 2>/dev/null || true'' @ [nl] @
     ''    fi'' @ [nl]"

definition rotateCmd :: "('s, 'p) deps \<Rightarrow> string" where
  "rotateCmd d =
     [nl] @ rotateBlock (backupDir d) (backupDirPrev d) @
     rotateBlock (skillsDir d) (skillsDirPrev d) @ ''  ''"

definition syncCmd :: "('s, 'p) deps \<Rightarrow> string" where
  "syncCmd d =
     ''rsync -r --no-times --delete --exclude='' @ [sq] @ ''*.lock'' @ [sq] @
     '' --exclude='' @ [sq] @ ''*.log'' @ [sq] @
     '' --exclude='' @ [sq] @ ''*.tmp'' @ [sq] @
     '' /root/.clawdbot/ '' @ backupDir d @
     ''/ && rsync -r --no-times --delete /root/clawd/skills/ '' @ skillsDir d @ ''/''"

definition manifestCmd :: "('s, 'p) deps \<Rightarrow> string" where
  "manifestCmd d =
     [nl] @ ''      cd '' @ R2_MOUNT_PATH d @
       '' && find clawdbot skills -type f 2>/dev/null | while read f; do'' @ [nl] @
     ''        sum=$(md5sum '' @ [dq] @ ''$f'' @ [dq] @ '' 2>/dev/null | cut -d'' @
       [sq] @ '' '' @ [sq] @ '' -f1)'' @ [nl] @
     ''        size=$(stat -c%s '' @ [dq] @ ''$f'' @ [dq] @ '' 2>/dev/null || stat -f%z '' @
       [dq] @ ''$f'' @ [dq] @ '' 2>/dev/null)'' @ [nl] @
     ''        echo '' @ [dq] @ ''$f|$sum|$size'' @ [dq] @ [nl] @
     ''      done'' @ [nl] @
     ''    ''"

definition writeManifestCmd :: "('s, 'p) deps \<Rightarrow> BackupManifest \<Rightarrow> string" where
  "writeManifestCmd d manifest =
     ''cat > '' @ R2_MOUNT_PATH d @ ''/.manifest.json << '' @ [sq] @ ''EOFMANIFEST'' @ [sq] @ [nl] @
     JSON_stringify d manifest @ [nl] @
     ''EOFMANIFEST'' @ [nl] @
     ''date -Iseconds > '' @ R2_MOUNT_PATH d @ ''/.last-sync''"

definition timestampCmd :: "('s, 'p) deps \<Rightarrow> string" where
  "timestampCmd d = ''cat '' @ R2_MOUNT_PATH d @ ''/.last-sync''"

definition readManifestCmd :: "('s, 'p) deps \<Rightarrow> string" where
  "readManifestCmd d = ''cat '' @ R2_MOUNT_PATH d @ ''/.manifest.json''"

definition md5Cmd :: "('s, 'p) deps \<Rightarrow> ManifestEntry \<Rightarrow> string" where
  "md5Cmd d entry =
     ''md5sum '' @ [dq] @ R2_MOUNT_PATH d @ ''/'' @ path entry @ [dq] @
     '' 2>/dev/null | cut -d'' @ [sq] @ '' '' @ [sq] @ '' -f1''"

subsection \<open>Manifest records\<close>

text \<open>
  \<^verbatim>\<open>const [path, checksum, size] = line.split('|')\<close> and
  \<^verbatim>\<open>{ path, checksum, size: parseInt(size, 10) || 0 }\<close>. A missing third field is
  \<^verbatim>\<open>undefined\<close>, which \<^verbatim>\<open>parseInt\<close> turns into NaN; NaN and 0 both give 0.
  The one-field case is not reached from \<open>manifestEntries\<close>: a line that has a bar
  splits into two fields at least.
\<close>

definition entryOfLine :: "string \<Rightarrow> ManifestEntry" where
  "entryOfLine line =
     (case split_on (CHR ''|'') line of
        p # c # s # rest \<Rightarrow>
          \<lparr>path = p, checksum = c,
           size_bytes = (case parseInt s of None \<Rightarrow> 0 | Some n \<Rightarrow> n)\<rparr>
      | [p, c] \<Rightarrow> \<lparr>path = p, checksum = c, size_bytes = 0\<rparr>
      | [p] \<Rightarrow> \<lparr>path = p, checksum = [], size_bytes = 0\<rparr>
      | [] \<Rightarrow> \<lparr>path = [], checksum = [], size_bytes = 0\<rparr>)"

text \<open>\<^verbatim>\<open>(stdout || '').trim().split('\n').filter(line => line.includes('|')).map(...)\<close>\<close>

definition manifestEntries :: "string option \<Rightarrow> ManifestEntry list" where
  "manifestEntries out =
     map entryOfLine
       (filter (\<lambda>line. CHR ''|'' \<in> set line)
         (split_on nl (trim (case out of None \<Rightarrow> [] | Some s \<Rightarrow> s))))"

subsection \<open>syncToR2\<close>

definition not_configured :: "MoltbotEnv \<Rightarrow> bool" where
  "not_configured env =
     (falsy (R2_ACCESS_KEY_ID env) \<or> falsy (R2_SECRET_ACCESS_KEY env) \<or> falsy (CF_ACCOUNT_ID env))"

definition failure :: "string \<Rightarrow> string option \<Rightarrow> SyncResult" where
  "failure e dt = \<lparr>success = False, lastSync = None, error = Some e, details = dt\<rparr>"

definition source_missing :: SyncResult where
  "source_missing =
     failure ''Sync aborted: source missing clawdbot.json''
       (Some (''The local config directory is missing critical files. '' @
              ''This could indicate corruption or an incomplete setup.''))"

text \<open>\<^verbatim>\<open>checkLogs.stdout?.includes('ok')\<close>: an absent stdout is not ok.\<close>

definition has_ok :: "logs \<Rightarrow> bool" where
  "has_ok l = (case stdout l of None \<Rightarrow> False | Some s \<Rightarrow> includes_str s ''ok'')"

text \<open>The first \<^verbatim>\<open>try\<close> block. \<open>Some r\<close> is a \<^verbatim>\<open>return r\<close> from inside it or
  from its handler; \<open>None\<close> falls through to the rest of the function.\<close>

definition sanityCheck :: "('s, 'p) deps \<Rightarrow> ('s, 'p, SyncResult option) prog" where
  "sanityCheck d =
     try_catch
       (seq (call_start d checkCmd) (\<lambda>checkProc.
        seq (call_wait d checkProc 5000) (\<lambda>_.
        seq (call_logs d checkProc) (\<lambda>checkLogs.
          ret (if \<not> has_ok checkLogs then Some source_missing else None)))))
       (\<lambda>err. ret (Some (failure ''Failed to verify source files''
                            (Some (message_or err ''Unknown error'')))))"

text \<open>The second \<^verbatim>\<open>try\<close> block, step by step.\<close>

definition rotateStep :: "('s, 'p) deps \<Rightarrow> ('s, 'p, unit) prog" where
  "rotateStep d =
     seq (call_start d (rotateCmd d)) (\<lambda>rotateProc. call_wait d rotateProc 15000)"

definition transferStep :: "('s, 'p) deps \<Rightarrow> ('s, 'p, 'p) prog" where
  "transferStep d =
     seq (call_start d (syncCmd d)) (\<lambda>proc.
     seq (call_wait d proc 30000) (\<lambda>_. ret proc))"

definition manifestStep :: "('s, 'p) deps \<Rightarrow> ('s, 'p, ManifestEntry list) prog" where
  "manifestStep d =
     seq (call_start d (manifestCmd d)) (\<lambda>manifestProc.
     seq (call_wait d manifestProc 15000) (\<lambda>_.
     seq (call_logs d manifestProc) (\<lambda>manifestLogs.
       ret (manifestEntries (stdout manifestLogs)))))"

definition persistStep :: "('s, 'p) deps \<Rightarrow> ManifestEntry list \<Rightarrow> ('s, 'p, unit) prog" where
  "persistStep d es = (\<lambda>s.
     seq (call_start d (writeManifestCmd d
            \<lparr>version = 1, timestamp = Date_toISOString d s, entries = es\<rparr>)) (\<lambda>writeProc.
          call_wait d writeProc 5000) s)"

text \<open>\<^verbatim>\<open>timestampLogs.stdout?.trim()\<close>\<close>

definition readTimestamp :: "('s, 'p) deps \<Rightarrow> ('s, 'p, string option) prog" where
  "readTimestamp d =
     seq (call_start d (timestampCmd d)) (\<lambda>timestampProc.
     seq (call_wait d timestampProc 5000) (\<lambda>_.
     seq (call_logs d timestampProc) (\<lambda>timestampLogs.
       ret (map_option trim (stdout timestampLogs)))))"

text \<open>\<^verbatim>\<open>lastSync && lastSync.match(/^\d{4}-\d{2}-\d{2}/)\<close>\<close>

definition well_formed_token :: "string option \<Rightarrow> bool" where
  "well_formed_token tok =
     (case tok of None \<Rightarrow> False | Some t \<Rightarrow> t \<noteq> [] \<and> date_prefixed t)"

definition conclude :: "('s, 'p) deps \<Rightarrow> 'p \<Rightarrow> string option \<Rightarrow> ('s, 'p, SyncResult) prog" where
  "conclude d proc tok =
     (if well_formed_token tok
      then ret \<lparr>success = True, lastSync = tok, error = None, details = None\<rparr>
      else seq (call_logs d proc) (\<lambda>logs.
             ret (failure ''Sync failed''
                    (or_else (stderr logs)
                      (or_else (stdout logs) (Some ''No timestamp file created''))))))"

definition syncBody :: "('s, 'p) deps \<Rightarrow> ('s, 'p, SyncResult) prog" where
  "syncBody d =
     seq (rotateStep d) (\<lambda>_.
     seq (transferStep d) (\<lambda>proc.
     seq (manifestStep d) (\<lambda>es.
     seq (persistStep d es) (\<lambda>_.
     seq (readTimestamp d) (\<lambda>tok.
       conclude d proc tok)))))"

definition syncToR2 :: "('s, 'p) deps \<Rightarrow> MoltbotEnv \<Rightarrow> ('s, 'p, SyncResult) prog" where
  "syncToR2 d env =
     (if not_configured env then ret (failure ''R2 storage is not configured'' None)
      else seq (call_mount d env) (\<lambda>mounted.
        if \<not> mounted then ret (failure ''Failed to mount R2 storage'' None)
        else seq (sanityCheck d) (\<lambda>early.
          case early of
            Some r \<Rightarrow> ret r
          | None \<Rightarrow>
              try_catch (syncBody d)
                (\<lambda>err. ret (failure ''Sync error''
                              (Some (message_or err ''Unknown error'')))))))"

subsection \<open>verifyR2Backup\<close>

definition no_manifest :: VerifyResult where
  "no_manifest =
     \<lparr>valid = False, errors = [''No manifest found - backup may be from older version'']\<rparr>"

text \<open>\<^verbatim>\<open>verifyLogs.stdout?.trim()\<close> of the checksum command for one entry.\<close>

definition readChecksum :: "('s, 'p) deps \<Rightarrow> ManifestEntry \<Rightarrow> ('s, 'p, string option) prog" where
  "readChecksum d entry =
     seq (call_start d (md5Cmd d entry)) (\<lambda>verifyProc.
     seq (call_wait d verifyProc 5000) (\<lambda>_.
     seq (call_logs d verifyProc) (\<lambda>verifyLogs.
       ret (map_option trim (stdout verifyLogs)))))"

text \<open>The template of the error line; an absent checksum prints as \<^verbatim>\<open>undefined\<close>.\<close>

definition mismatchMessage :: "ManifestEntry \<Rightarrow> string option \<Rightarrow> string" where
  "mismatchMessage entry actualChecksum =
     ''Checksum mismatch: '' @ path entry @ '' (expected '' @ checksum entry @ '', got '' @
     (case actualChecksum of None \<Rightarrow> ''undefined'' | Some a \<Rightarrow> a) @ '')''"

text \<open>The \<^verbatim>\<open>for (const entry of manifest.entries)\<close> loop, pushing onto \<open>errs\<close>.\<close>

fun verifyLoop ::
  "('s, 'p) deps \<Rightarrow> ManifestEntry list \<Rightarrow> string list \<Rightarrow> ('s, 'p, string list) prog" where
  "verifyLoop d [] errs s = (Inr errs, s, [])"
| "verifyLoop d (entry # rest) errs s =
     (case readChecksum d entry s of
        (Inl e, s', t) \<Rightarrow> (Inl e, s', t)
      | (Inr actualChecksum, s', t) \<Rightarrow>
          (case verifyLoop d rest
                  (if actualChecksum \<noteq> Some (checksum entry)
                   then errs @ [mismatchMessage entry actualChecksum] else errs) s' of
             (r, s'', t') \<Rightarrow> (r, s'', t @ t')))"

definition verifyBody :: "('s, 'p) deps \<Rightarrow> ('s, 'p, VerifyResult) prog" where
  "verifyBody d =
     seq (call_start d (readManifestCmd d)) (\<lambda>manifestProc.
     seq (call_wait d manifestProc 5000) (\<lambda>_.
     seq (call_logs d manifestProc) (\<lambda>manifestLogs.
       case stdout manifestLogs of
         None \<Rightarrow> ret no_manifest
       | Some content \<Rightarrow>
           if content = [] then ret no_manifest
           else seq (\<lambda>s. (JSON_parse d content, s, [])) (\<lambda>manifest.
                seq (verifyLoop d (entries manifest) []) (\<lambda>errs.
                  ret \<lparr>valid = (errs = []), errors = errs\<rparr>)))))"

definition verifyR2Backup :: "('s, 'p) deps \<Rightarrow> MoltbotEnv \<Rightarrow> ('s, 'p, VerifyResult) prog" where
  "verifyR2Backup d env =
     (if not_configured env
      then ret \<lparr>valid = False, errors = [''R2 storage is not configured'']\<rparr>
      else seq (call_mount d env) (\<lambda>mounted.
        if \<not> mounted then ret \<lparr>valid = False, errors = [''Failed to mount R2 storage'']\<rparr>
        else try_catch (verifyBody d)
               (\<lambda>err. ret \<lparr>valid = False,
                             errors = [''Verification error: '' @ message_or err ''Unknown'']\<rparr>)))"

subsection \<open>Recomputed checksums\<close>




subsection \<open>Lines of a listing\<close>

text \<open>\<^verbatim>\<open>lines.join(c)\<close>: the text whose lines are \<open>ws\<close>, used to state what the manifest
  command printed.\<close>

fun join_with :: "char \<Rightarrow> string list \<Rightarrow> string" where
  "join_with c [] = []"
| "join_with c [w] = w"
| "join_with c (w # v # ws) = w @ c # join_with c (v # ws)"

subsection \<open>A scripted sandbox\<close>

text \<open>
  The sandbox of the repository's tests: \<open>startProcess\<close> answers from a queue of prepared
  processes (or rejections), a process carries its own logs and exit status, waiting
  always returns. It is the concrete input of the examples below.
\<close>

text \<open>
  The text \<^verbatim>\<open>JSON.stringify(manifest, null, 2)\<close> prints: strings are quoted with the
  escapes of JSON, numbers print in decimal (as they do below \<open>10^21\<close>), each level is
  indented by two spaces.
\<close>

definition bsl :: char where
  "bsl = CHR 0x5C"

definition json_char :: "char \<Rightarrow> string" where
  "json_char c =
     (if c = dq then [bsl, dq]
      else if c = bsl then [bsl, bsl]
      else if c = CHR 0x08 then [bsl, CHR ''b'']
      else if c = CHR 0x09 then [bsl, CHR ''t'']
      else if c = CHR 0x0A then [bsl, CHR ''n'']
      else if c = CHR 0x0C then [bsl, CHR ''f'']
      else if c = CHR 0x0D then [bsl, CHR ''r'']
      else if (of_char c :: nat) < 32
        then [bsl, CHR ''u'', CHR ''0'', CHR ''0'',
              ''0123456789abcdef'' ! (of_char c div 16), ''0123456789abcdef'' ! (of_char c mod 16)]
      else [c])"

definition json_string :: "string \<Rightarrow> string" where
  "json_string s = [dq] @ concat (map json_char s) @ [dq]"

fun show_nat :: "nat \<Rightarrow> string" where
  "show_nat n =
     (if n < 10 then [char_of (48 + n)]
      else show_nat (n div 10) @ [char_of (48 + n mod 10)])"

definition show_int :: "int \<Rightarrow> string" where
  "show_int i = (if i < 0 then CHR ''-'' # show_nat (nat (- i)) else show_nat (nat i))"

definition json_entry :: "ManifestEntry \<Rightarrow> string" where
  "json_entry e =
     ''    {'' @ [nl] @
     ''      '' @ json_string ''path'' @ '': '' @ json_string (path e) @ '','' @ [nl] @
     ''      '' @ json_string ''checksum'' @ '': '' @ json_string (checksum e) @ '','' @ [nl] @
     ''      '' @ json_string ''size'' @ '': '' @ show_int (size_bytes e) @ [nl] @
     ''    }''"

fun join_with_str :: "string \<Rightarrow> string list \<Rightarrow> string" where
  "join_with_str sep [] = []"
| "join_with_str sep [w] = w"
| "join_with_str sep (w # v # ws) = w @ sep @ join_with_str sep (v # ws)"

definition json_text :: "BackupManifest \<Rightarrow> string" where
  "json_text m =
     ''{'' @ [nl] @
     ''  '' @ json_string ''version'' @ '': '' @ show_int (version m) @ '','' @ [nl] @
     ''  '' @ json_string ''timestamp'' @ '': '' @ json_string (timestamp m) @ '','' @ [nl] @
     ''  '' @ json_string ''entries'' @ '': '' @
     (if entries m = [] then ''[]''
      else ''['' @ [nl] @ join_with_str ('','' @ [nl]) (map json_entry (entries m)) @ [nl] @
           ''  ]'') @ [nl] @
     ''}''"

record mock_proc =
  mock_stdout :: string
  mock_stderr :: string
  mock_exitCode :: int

definition createMockProcess :: "string \<Rightarrow> int \<Rightarrow> mock_proc" where
  "createMockProcess so c = \<lparr>mock_stdout = so, mock_stderr = [], mock_exitCode = c\<rparr>"

type_synonym mock_queue = "(exn + mock_proc) list"

definition mock_start :: "string \<Rightarrow> mock_queue \<Rightarrow> (exn + mock_proc) \<times> mock_queue" where
  "mock_start cmd q =
     (case q of
        [] \<Rightarrow> (Inl (Error ''no more processes''), [])
      | r # q' \<Rightarrow> (r, q'))"

text \<open>The mount answers \<open>mounted\<close>. \<^verbatim>\<open>JSON.parse\<close> knows one document, the text of the
  manifest \<open>m\<close>, and rejects every other text; the examples parse no other. The queue
  has no files.\<close>

definition mockSandbox :: "bool \<Rightarrow> BackupManifest \<Rightarrow> (mock_queue, mock_proc) deps" where
  "mockSandbox mounted m =
     \<lparr>R2_MOUNT_PATH = ''/data/moltbot'',
      mountR2Storage = (\<lambda>env q. (mounted, q)),
      startProcess = mock_start,
      waitForProcess = (\<lambda>p ms q. (Inr (), q)),
      getLogs = (\<lambda>p q.
        (Inr \<lparr>stdout = Some (mock_stdout p), stderr = Some (mock_stderr p)\<rparr>, q)),
      exitCode = (\<lambda>p q. Some (mock_exitCode p)),
      readFile = (\<lambda>f q. None),
      Date_toISOString = (\<lambda>q. ''2026-01-27T12:00:00.000Z''),
      JSON_stringify = json_text,
      JSON_parse = (\<lambda>t. if t = json_text m then Inr m
                         else Inl (Error ''Unexpected token''))\<rparr>"

definition mockEnv :: MoltbotEnv where
  "mockEnv = \<lparr>R2_ACCESS_KEY_ID = None, R2_SECRET_ACCESS_KEY = None, CF_ACCOUNT_ID = None\<rparr>"

definition mockEnvWithR2 :: MoltbotEnv where
  "mockEnvWithR2 =
     \<lparr>R2_ACCESS_KEY_ID = Some ''test-key-id'', R2_SECRET_ACCESS_KEY = Some ''test-secret-key'',
      CF_ACCOUNT_ID = Some ''test-account-id''\<rparr>"

definition noManifest :: BackupManifest where
  "noManifest = \<lparr>version = 1, timestamp = [], entries = []\<rparr>"





text \<open>The queues of the tests \<^verbatim>\<open>returns success when sync completes\<close> and
  \<^verbatim>\<open>returns error when rsync fails (no timestamp created)\<close>, one where the rotation
  script exits with status 1, and one where spawning the rotation is rejected.\<close>

definition successQueue :: mock_queue where
  "successQueue =
     [Inr (createMockProcess ''ok'' 0),
      Inr (createMockProcess [] 0),
      Inr (createMockProcess [] 0),
      Inr (createMockProcess (''clawdbot/clawdbot.json|abc123|100'' @ [nl]) 0),
      Inr (createMockProcess [] 0),
      Inr (createMockProcess ''2026-01-27T12:00:00+00:00'' 0)]"

definition failedTransferQueue :: mock_queue where
  "failedTransferQueue =
     [Inr (createMockProcess ''ok'' 0),
      Inr (createMockProcess [] 0),
      Inr (createMockProcess [] 1),
      Inr (createMockProcess [] 0),
      Inr (createMockProcess [] 0),
      Inr (createMockProcess [] 0)]"

definition failedRotationQueue :: mock_queue where
  "failedRotationQueue =
     [Inr (createMockProcess ''ok'' 0),
      Inr (createMockProcess [] 1),
      Inr (createMockProcess [] 0),
      Inr (createMockProcess (''clawdbot/clawdbot.json|abc123|100'' @ [nl]) 0),
      Inr (createMockProcess [] 0),
      Inr (createMockProcess ''2026-01-27T12:00:00+00:00'' 0)]"

definition rejectedRotationQueue :: mock_queue where
  "rejectedRotationQueue =
     [Inr (createMockProcess ''ok'' 0),
      Inl (Error ''spawn failed'')]"

subsection \<open>A sandbox with files\<close>

text \<open>
  A second example sandbox, which keeps files and a clock. It runs four commands as a
  shell would: the test for the marker file, the write of the manifest and of the token
  (the here-document goes to \<^verbatim>\<open>.manifest.json\<close>, the line that \<^verbatim>\<open>date -Iseconds\<close>
  prints goes to \<^verbatim>\<open>.last-sync\<close>), and the \<^verbatim>\<open>cat\<close> of each of the two files. Every
  other command finishes at once, prints nothing and changes no file. A process is
  finished when it is returned and carries its output.
\<close>

record fs_state =
  fs_files :: "(string \<times> string) list"
  fs_date :: string

fun drop_prefix :: "string \<Rightarrow> string \<Rightarrow> string option" where
  "drop_prefix [] s = Some s"
| "drop_prefix (p # ps) [] = None"
| "drop_prefix (p # ps) (c # cs) = (if p = c then drop_prefix ps cs else None)"

definition drop_suffix :: "string \<Rightarrow> string \<Rightarrow> string option" where
  "drop_suffix p s = map_option rev (drop_prefix (rev p) (rev s))"

text \<open>The document of the here-document, when the command is the write of manifest and
  token under \<^verbatim>\<open>/data/moltbot\<close>.\<close>

definition heredoc_body :: "string \<Rightarrow> string option" where
  "heredoc_body cmd =
     (case drop_prefix (''cat > /data/moltbot/.manifest.json << '' @ [sq] @ ''EOFMANIFEST'' @
                        [sq] @ [nl]) cmd of
        None \<Rightarrow> None
      | Some rest \<Rightarrow>
          drop_suffix ([nl] @ ''EOFMANIFEST'' @ [nl] @
                       ''date -Iseconds > /data/moltbot/.last-sync'') rest)"

definition fs_cat :: "string \<Rightarrow> fs_state \<Rightarrow> mock_proc" where
  "fs_cat f st =
     (case map_of (fs_files st) f of
        None \<Rightarrow>
          \<lparr>mock_stdout = [],
           mock_stderr = ''cat: '' @ f @ '': No such file or directory'' @ [nl],
           mock_exitCode = 1\<rparr>
      | Some content \<Rightarrow> \<lparr>mock_stdout = content, mock_stderr = [], mock_exitCode = 0\<rparr>)"

definition fs_start :: "string \<Rightarrow> fs_state \<Rightarrow> (exn + mock_proc) \<times> fs_state" where
  "fs_start cmd st =
     (if cmd = ''test -f /root/.clawdbot/clawdbot.json && echo '' @ [dq] @ ''ok'' @ [dq]
      then (Inr (if map_of (fs_files st) ''/root/.clawdbot/clawdbot.json'' = None
                 then createMockProcess [] 1
                 else createMockProcess (''ok'' @ [nl]) 0), st)
      else
        (case heredoc_body cmd of
           Some body \<Rightarrow>
             (Inr (createMockProcess [] 0),
              st\<lparr>fs_files :=
                   (''/data/moltbot/.last-sync'', fs_date st @ [nl]) #
                   (''/data/moltbot/.manifest.json'', body @ [nl]) # fs_files st\<rparr>)
         | None \<Rightarrow>
             if cmd = ''cat /data/moltbot/.last-sync''
               then (Inr (fs_cat ''/data/moltbot/.last-sync'' st), st)
             else if cmd = ''cat /data/moltbot/.manifest.json''
               then (Inr (fs_cat ''/data/moltbot/.manifest.json'' st), st)
             else (Inr (createMockProcess [] 0), st)))"

definition fsSandbox :: "BackupManifest \<Rightarrow> (fs_state, mock_proc) deps" where
  "fsSandbox m =
     \<lparr>R2_MOUNT_PATH = ''/data/moltbot'',
      mountR2Storage = (\<lambda>env st. (True, st)),
      startProcess = fs_start,
      waitForProcess = (\<lambda>p ms st. (Inr (), st)),
      getLogs = (\<lambda>p st.
        (Inr \<lparr>stdout = Some (mock_stdout p), stderr = Some (mock_stderr p)\<rparr>, st)),
      exitCode = (\<lambda>p st. Some (mock_exitCode p)),
      readFile = (\<lambda>f st. map_of (fs_files st) f),
      Date_toISOString = (\<lambda>st. ''2026-01-27T12:00:00.000Z''),
      JSON_stringify = json_text,
      JSON_parse = (\<lambda>t. if t = json_text m then Inr m
                         else Inl (Error ''Unexpected token''))\<rparr>"

text \<open>The manifest a sync writes in this sandbox (nothing is listed), and a state whose
  source has the marker file and whose store still holds the token of an earlier cycle;
  the clock shows a later time.\<close>

definition firstManifest :: BackupManifest where
  "firstManifest =
     \<lparr>version = 1, timestamp = ''2026-01-27T12:00:00.000Z'', entries = []\<rparr>"

definition staleState :: fs_state where
  "staleState =
     \<lparr>fs_files =
        [(''/root/.clawdbot/clawdbot.json'', ''{}''),
         (''/data/moltbot/.last-sync'', ''2025-12-31T23:59:59+00:00'' @ [nl])],
      fs_date = ''2026-01-27T12:00:00+00:00''\<rparr>"

text \<open>What the manifest command may print: two records and a line of noise; the size of
  the last record is not a number.\<close>

definition listing :: "string list" where
  "listing = [''clawdbot/clawdbot.json|abc123|100'', ''find: skills: No such file'',
              ''skills/a.md|def456|oops'']"

section \<open>Properties\<close>

subsection \<open>Sequencing, calls and handlers\<close>

lemma try_catch_ret:
  "try_catch m (\<lambda>err. ret (g err)) s =
     (case m s of (Inl e, s', t) \<Rightarrow> (Inr (g e), s', t) | (Inr a, s', t) \<Rightarrow> (Inr a, s', t))"
  by (simp add: try_catch_def ret_def split: prod.splits sum.splits)

lemma try_catch_returns:
  assumes "\<And>e s. \<exists>r s' t. h e s = (Inr r, s', t)"
  shows "\<exists>r s' t. try_catch m h s = (Inr r, s', t)"
proof (cases "m s")
  case (fields x s1 t1)
  show ?thesis
  proof (cases x)
    case (Inl e)
    obtain r s' t where "h e s1 = (Inr r, s', t)" using assms by blast
    with fields Inl show ?thesis by (simp add: try_catch_def)
  next
    case (Inr a)
    with fields show ?thesis by (simp add: try_catch_def)
  qed
qed

lemma call_mount_eq:
  "mountR2Storage d env s = (b, s') \<Longrightarrow> call_mount d env s = (Inr b, s', [MountCall b])"
  by (simp add: call_mount_def)

lemma call_start_eq:
  "startProcess d cmd s = (r, s') \<Longrightarrow> call_start d cmd s = (r, s', [StartCall cmd r])"
  by (simp add: call_start_def)

lemma call_wait_eq:
  "waitForProcess d p ms s = (r, s') \<Longrightarrow> call_wait d p ms s = (r, s', [WaitCall p ms r])"
  by (simp add: call_wait_def)

lemma call_logs_eq:
  "getLogs d p s = (r, s') \<Longrightarrow> call_logs d p s = (r, s', [LogsCall p r])"
  by (simp add: call_logs_def)

lemma started_append: "started (a @ b) = started a @ started b"
  by (induction a rule: started.induct) simp_all

lemma seq_started_prefix:
  "m s = (r, s', t) \<Longrightarrow> \<exists>rest. started (snd (snd (seq m f s))) = started t @ rest"
  by (auto simp: seq_def started_append split: prod.splits sum.splits)

subsection \<open>Strings\<close>

lemma includes_str_iff: "includes_str s sub \<longleftrightarrow> (\<exists>pre post. s = pre @ sub @ post)"
proof (induction s)
  case Nil
  then show ?case by auto
next
  case (Cons x xs)
  show ?case
  proof
    assume "includes_str (x # xs) sub"
    then consider "take (length sub) (x # xs) = sub" | "includes_str xs sub" by auto
    then show "\<exists>pre post. x # xs = pre @ sub @ post"
    proof cases
      case 1
      then have "x # xs = [] @ sub @ drop (length sub) (x # xs)"
        by (metis append_Nil append_take_drop_id)
      then show ?thesis by blast
    next
      case 2
      then obtain pre post where "xs = pre @ sub @ post" using Cons.IH by blast
      then have "x # xs = (x # pre) @ sub @ post" by simp
      then show ?thesis by blast
    qed
  next
    assume "\<exists>pre post. x # xs = pre @ sub @ post"
    then obtain pre post where eq: "x # xs = pre @ sub @ post" by blast
    show "includes_str (x # xs) sub"
    proof (cases pre)
      case Nil
      with eq have "take (length sub) (x # xs) = sub" by simp
      then show ?thesis by simp
    next
      case (Cons y ys)
      with eq have "xs = ys @ sub @ post" by simp
      then have "includes_str xs sub" using Cons.IH by blast
      then show ?thesis by simp
    qed
  qed
qed

lemma length4: "length y = 4 \<longleftrightarrow> (\<exists>a b c d. y = [a, b, c, d])"
  by (auto simp: eval_nat_numeral length_Suc_conv)

lemma length2: "length y = 2 \<longleftrightarrow> (\<exists>a b. y = [a, b])"
  by (auto simp: eval_nat_numeral length_Suc_conv)

lemma date_prefixed_iff:
  "date_prefixed t \<longleftrightarrow>
     (\<exists>y m dd rest. t = y @ ''-'' @ m @ ''-'' @ dd @ rest \<and>
        length y = 4 \<and> length m = 2 \<and> length dd = 2 \<and>
        (\<forall>c \<in> set (y @ m @ dd). c \<in> set ''0123456789''))"
proof
  assume "date_prefixed t"
  then obtain y1 y2 y3 y4 m1 m2 d1 d2 rest where
    t: "t = [y1, y2, y3, y4] @ ''-'' @ [m1, m2] @ ''-'' @ [d1, d2] @ rest"
    and dg: "is_digit y1" "is_digit y2" "is_digit y3" "is_digit y4"
      "is_digit m1" "is_digit m2" "is_digit d1" "is_digit d2"
    by (auto elim!: date_prefixed.elims)
  from dg have "\<forall>c \<in> set ([y1, y2, y3, y4] @ [m1, m2] @ [d1, d2]). c \<in> set ''0123456789''"
    by (simp add: is_digit_def)
  with t show "\<exists>y m dd rest. t = y @ ''-'' @ m @ ''-'' @ dd @ rest \<and>
        length y = 4 \<and> length m = 2 \<and> length dd = 2 \<and>
        (\<forall>c \<in> set (y @ m @ dd). c \<in> set ''0123456789'')"
    by (intro exI [of _ "[y1, y2, y3, y4]"] exI [of _ "[m1, m2]"] exI [of _ "[d1, d2]"]
        exI [of _ rest]) simp
next
  assume "\<exists>y m dd rest. t = y @ ''-'' @ m @ ''-'' @ dd @ rest \<and>
        length y = 4 \<and> length m = 2 \<and> length dd = 2 \<and>
        (\<forall>c \<in> set (y @ m @ dd). c \<in> set ''0123456789'')"
  then obtain y m dd rest where t: "t = y @ ''-'' @ m @ ''-'' @ dd @ rest"
    and l: "length y = 4" "length m = 2" "length dd = 2"
    and dg: "\<forall>c \<in> set (y @ m @ dd). is_digit c"
    by (auto simp: is_digit_def)
  from l obtain y1 y2 y3 y4 m1 m2 d1 d2 where
    "y = [y1, y2, y3, y4]" "m = [m1, m2]" "dd = [d1, d2]"
    by (auto simp: length4 length2)
  with t dg show "date_prefixed t" by simp
qed

lemma split_on_no_sep: "c \<notin> set w \<Longrightarrow> split_on c w = [w]"
  by (induction w) auto

lemma split_on_sep: "c \<notin> set w \<Longrightarrow> split_on c (w @ c # rest) = w # split_on c rest"
  by (induction w) auto

lemma split_on_nonempty: "split_on c l \<noteq> []"
  by (induction l) (auto split: list.splits)

lemma split_on_two_fields: "c \<in> set l \<Longrightarrow> \<exists>p q rest. split_on c l = p # q # rest"
proof (induction l)
  case Nil
  then show ?case by simp
next
  case (Cons x xs)
  show ?case
  proof (cases "x = c")
    case True
    then show ?thesis
      using split_on_nonempty [of c xs] by (cases "split_on c xs") auto
  next
    case False
    with Cons.prems have "c \<in> set xs" by simp
    then obtain p q rest where "split_on c xs = p # q # rest"
      using Cons.IH by blast
    with False show ?thesis by simp
  qed
qed

lemma split_on_join:
  "ws \<noteq> [] \<Longrightarrow> \<forall>w \<in> set ws. c \<notin> set w \<Longrightarrow> split_on c (join_with c ws) = ws"
  by (induction c ws rule: join_with.induct) (simp_all add: split_on_no_sep split_on_sep)

lemma entryOfLine_fields:
  assumes "CHR ''|'' \<notin> set p" "CHR ''|'' \<notin> set c" "CHR ''|'' \<notin> set sz"
  shows "entryOfLine (p @ ''|'' @ c @ ''|'' @ sz) =
     \<lparr>path = p, checksum = c,
      size_bytes = (case parseInt sz of None \<Rightarrow> 0 | Some n \<Rightarrow> n)\<rparr>"
proof -
  have "split_on (CHR ''|'') (p @ CHR ''|'' # c @ CHR ''|'' # sz) = [p, c, sz]"
    using assms by (simp add: split_on_sep split_on_no_sep)
  then show ?thesis
    by (simp add: entryOfLine_def)
qed

lemma syncCmd_neq: "syncCmd d \<noteq> checkCmd" "syncCmd d \<noteq> rotateCmd d"
  by (simp_all add: syncCmd_def checkCmd_def rotateCmd_def nl_def)

subsection \<open>The steps of a sync\<close>

lemma sanityCheck_returns: "\<exists>r s' t. sanityCheck d s = (Inr r, s', t)"
  unfolding sanityCheck_def by (rule try_catch_returns) (simp add: ret_def)

lemma sanityCheck_logs:
  assumes "startProcess d checkCmd s1 = (Inr checkProc, s2)"
    and "waitForProcess d checkProc 5000 s2 = (Inr (), s3)"
    and "getLogs d checkProc s3 = (Inr checkLogs, s4)"
  shows "sanityCheck d s1 =
           (Inr (if has_ok checkLogs then None else Some source_missing), s4,
            [StartCall checkCmd (Inr checkProc), WaitCall checkProc 5000 (Inr ()),
             LogsCall checkProc (Inr checkLogs)])"
  using assms
  by (simp add: sanityCheck_def try_catch_def seq_def call_start_def call_wait_def call_logs_def
      ret_def)

lemma sanityCheck_started: "sanityCheck d s = (r, s', t) \<Longrightarrow> started t = [checkCmd]"
  by (auto simp: sanityCheck_def try_catch_def seq_def call_start_def call_wait_def call_logs_def
      ret_def split: prod.splits sum.splits)

lemma rotateStep_started: "rotateStep d s = (r, s', t) \<Longrightarrow> started t = [rotateCmd d]"
  by (auto simp: rotateStep_def seq_def call_start_def call_wait_def
      split: prod.splits sum.splits)

lemma transferStep_started: "transferStep d s = (r, s', t) \<Longrightarrow> started t = [syncCmd d]"
  by (auto simp: transferStep_def seq_def call_start_def call_wait_def ret_def
      split: prod.splits sum.splits)

lemma manifestStep_started: "manifestStep d s = (r, s', t) \<Longrightarrow> started t = [manifestCmd d]"
  by (auto simp: manifestStep_def seq_def call_start_def call_wait_def call_logs_def ret_def
      split: prod.splits sum.splits)

lemma persistStep_started:
  "persistStep d es s = (r, s', t) \<Longrightarrow>
   started t = [writeManifestCmd d \<lparr>version = 1, timestamp = Date_toISOString d s, entries = es\<rparr>]"
  by (auto simp: persistStep_def seq_def call_start_def call_wait_def
      split: prod.splits sum.splits)

lemma readTimestamp_started: "readTimestamp d s = (r, s', t) \<Longrightarrow> started t = [timestampCmd d]"
  by (auto simp: readTimestamp_def seq_def call_start_def call_wait_def call_logs_def ret_def
      split: prod.splits sum.splits)

lemma rotateStep_run:
  assumes "startProcess d (rotateCmd d) s2 = (Inr rotateProc, s2a)"
    and "waitForProcess d rotateProc 15000 s2a = (Inr (), s3)"
  shows "rotateStep d s2 =
     (Inr (), s3, [StartCall (rotateCmd d) (Inr rotateProc), WaitCall rotateProc 15000 (Inr ())])"
  using assms by (simp add: rotateStep_def seq_def call_start_def call_wait_def)

lemma transferStep_run:
  assumes "startProcess d (syncCmd d) s3 = (Inr proc, s3a)"
    and "waitForProcess d proc 30000 s3a = (Inr (), s4)"
  shows "transferStep d s3 =
     (Inr proc, s4, [StartCall (syncCmd d) (Inr proc), WaitCall proc 30000 (Inr ())])"
  using assms by (simp add: transferStep_def seq_def call_start_def call_wait_def ret_def)

lemma readTimestamp_logs:
  assumes "startProcess d (timestampCmd d) s6 = (Inr timestampProc, s6a)"
    and "waitForProcess d timestampProc 5000 s6a = (Inr (), s6b)"
    and "getLogs d timestampProc s6b = (Inr timestampLogs, s7)"
  shows "readTimestamp d s6 =
     (Inr (map_option trim (stdout timestampLogs)), s7,
      [StartCall (timestampCmd d) (Inr timestampProc), WaitCall timestampProc 5000 (Inr ()),
       LogsCall timestampProc (Inr timestampLogs)])"
  using assms
  by (simp add: readTimestamp_def seq_def call_start_def call_wait_def call_logs_def ret_def)

lemma conclude_success:
  "\<exists>r s' t. try_catch (conclude d proc tok)
       (\<lambda>err. ret (failure ''Sync error'' (Some (message_or err ''Unknown error'')))) s
     = (Inr r, s', t) \<and> success r = well_formed_token tok \<and>
     (success r \<longrightarrow> lastSync r = tok)"
  by (cases "getLogs d proc s")
    (auto simp: conclude_def try_catch_def seq_def ret_def call_logs_def failure_def
      split: sum.splits)

lemma conclude_failed:
  assumes "\<not> well_formed_token tok"
    and "getLogs d proc s7 = (Inr transferLogs, s8)"
  shows "conclude d proc tok s7 =
     (Inr \<lparr>success = False, lastSync = None, error = Some ''Sync failed'',
           details = (if \<not> falsy (stderr transferLogs) then stderr transferLogs
                      else if \<not> falsy (stdout transferLogs) then stdout transferLogs
                      else Some ''No timestamp file created'')\<rparr>,
      s8, [LogsCall proc (Inr transferLogs)])"
  using assms
  by (simp add: conclude_def seq_def call_logs_def ret_def failure_def or_else_def)

lemma syncToR2_body:
  assumes "\<not> not_configured env"
    and "mountR2Storage d env s = (True, s1)"
    and "sanityCheck d s1 = (Inr None, s2, t2)"
  shows "syncToR2 d env s =
     (case syncBody d s2 of
        (Inl e, s', t) \<Rightarrow>
          (Inr (failure ''Sync error'' (Some (message_or e ''Unknown error''))), s',
           MountCall True # t2 @ t)
      | (Inr r, s', t) \<Rightarrow> (Inr r, s', MountCall True # t2 @ t))"
  using assms
  by (simp add: syncToR2_def seq_def call_mount_def try_catch_ret split: prod.splits sum.splits)

lemma syncToR2_started:
  assumes "\<not> not_configured env"
    and "mountR2Storage d env s = (True, s1)"
    and "sanityCheck d s1 = (Inr None, s2, t2)"
  shows "started (snd (snd (syncToR2 d env s))) = checkCmd # started (snd (snd (syncBody d s2)))"
  using sanityCheck_started [OF assms(3)]
  by (simp add: syncToR2_body [OF assms] started_append split: prod.splits sum.splits)

lemma syncBody_after_rotate:
  assumes "rotateStep d s2 = (Inr (), s3, t3)"
  shows "syncBody d s2 =
     (case seq (transferStep d) (\<lambda>proc.
             seq (manifestStep d) (\<lambda>es.
             seq (persistStep d es) (\<lambda>_.
             seq (readTimestamp d) (\<lambda>tok. conclude d proc tok)))) s3 of
        (r, s', t) \<Rightarrow> (r, s', t3 @ t))"
  using assms by (simp add: syncBody_def seq_def split: prod.splits sum.splits)

lemma syncBody_after_transfer:
  assumes "rotateStep d s2 = (Inr (), s3, t3)"
    and "transferStep d s3 = (Inr proc, s4, t4)"
  shows "syncBody d s2 =
     (case seq (manifestStep d) (\<lambda>es.
             seq (persistStep d es) (\<lambda>_.
             seq (readTimestamp d) (\<lambda>tok. conclude d proc tok))) s4 of
        (r, s', t) \<Rightarrow> (r, s', t3 @ t4 @ t))"
  using assms by (simp add: syncBody_def seq_def split: prod.splits sum.splits)

lemma syncBody_after_persist:
  assumes "rotateStep d s2 = (Inr (), s3, t3)"
    and "transferStep d s3 = (Inr proc, s4, t4)"
    and "manifestStep d s4 = (Inr es, s5, t5)"
    and "persistStep d es s5 = (Inr (), s6, t6)"
    and "readTimestamp d s6 = (Inr tok, s7, t7)"
  shows "syncBody d s2 =
     (case conclude d proc tok s7 of
        (r, s', t) \<Rightarrow> (r, s', t3 @ t4 @ t5 @ t6 @ t7 @ t))"
  using assms by (simp add: syncBody_def seq_def split: prod.splits sum.splits)

lemma sanityCheck_exitCode: "sanityCheck (d\<lparr>exitCode := ec\<rparr>) = sanityCheck d"
  by (simp add: sanityCheck_def call_start_def call_wait_def call_logs_def)

lemma syncBody_exitCode: "syncBody (d\<lparr>exitCode := ec\<rparr>) = syncBody d"
  by (simp add: syncBody_def rotateStep_def transferStep_def
      manifestStep_def persistStep_def readTimestamp_def conclude_def
      call_start_def call_wait_def call_logs_def rotateCmd_def syncCmd_def manifestCmd_def
      writeManifestCmd_def timestampCmd_def backupDir_def backupDirPrev_def skillsDir_def
      skillsDirPrev_def cong: if_cong)

lemma syncToR2_exitCode: "syncToR2 (d\<lparr>exitCode := ec\<rparr>) env = syncToR2 d env"
  by (simp add: syncToR2_def sanityCheck_exitCode syncBody_exitCode call_mount_def
      cong: if_cong)

lemma syncToR2_returns: "\<exists>r s' t. syncToR2 d env s = (Inr r, s', t)"
proof (cases "not_configured env")
  case True
  then show ?thesis by (simp add: syncToR2_def ret_def)
next
  case False
  obtain b s1 where m: "mountR2Storage d env s = (b, s1)" by (cases "mountR2Storage d env s")
  show ?thesis
  proof (cases b)
    case False
    with m \<open>\<not> not_configured env\<close> show ?thesis
      by (simp add: syncToR2_def seq_def call_mount_def ret_def)
  next
    case True
    obtain early s2 t2 where sc: "sanityCheck d s1 = (Inr early, s2, t2)"
      using sanityCheck_returns [of d s1] by blast
    show ?thesis
    proof (cases early)
      case (Some r)
      with m True sc \<open>\<not> not_configured env\<close> show ?thesis
        by (simp add: syncToR2_def seq_def call_mount_def ret_def)
    next
      case None
      obtain r s3 t3 where
        "try_catch (syncBody d)
           (\<lambda>err. ret (failure ''Sync error'' (Some (message_or err ''Unknown error'')))) s2
         = (Inr r, s3, t3)"
        using try_catch_returns [where h = "\<lambda>err. ret (failure ''Sync error'' (Some (message_or err ''Unknown error'')))" and m = "syncBody d" and s = s2]
        by (auto simp: ret_def)
      with m True sc None \<open>\<not> not_configured env\<close> show ?thesis
        by (simp add: syncToR2_def seq_def call_mount_def ret_def)
    qed
  qed
qed

subsection \<open>The verification loop\<close>

lemma verifyR2Backup_returns: "\<exists>r s' t. verifyR2Backup d env s = (Inr r, s', t)"
proof (cases "not_configured env")
  case True
  then show ?thesis by (simp add: verifyR2Backup_def ret_def)
next
  case False
  obtain b s1 where m: "mountR2Storage d env s = (b, s1)" by (cases "mountR2Storage d env s")
  show ?thesis
  proof (cases b)
    case False
    with m \<open>\<not> not_configured env\<close> show ?thesis
      by (simp add: verifyR2Backup_def seq_def call_mount_def ret_def)
  next
    case True
    obtain r s3 t3 where
      "try_catch (verifyBody d)
         (\<lambda>err. ret \<lparr>valid = False,
                       errors = [''Verification error: '' @ message_or err ''Unknown'']\<rparr>) s1
       = (Inr r, s3, t3)"
      using try_catch_returns [where h = "\<lambda>err. ret \<lparr>valid = False,
                       errors = [''Verification error: '' @ message_or err ''Unknown'']\<rparr>" and m = "verifyBody d" and s = s1]
      by (auto simp: ret_def)
    with m True \<open>\<not> not_configured env\<close> show ?thesis
      by (simp add: verifyR2Backup_def seq_def call_mount_def ret_def)
  qed
qed

subsection \<open>Evaluating the scripted sandbox\<close>

lemma mock_configured: "\<not> not_configured mockEnvWithR2"
  by (simp add: not_configured_def mockEnvWithR2_def falsy_def)

lemmas mock_defs = mockSandbox_def mock_start_def createMockProcess_def

lemmas run_defs = seq_def try_catch_def ret_def call_start_def call_wait_def call_logs_def
  call_mount_def

subsection \<open>The sanity check guards the destructive steps\<close>

text \<open>
  Claim C1. With the storage configured and mounted, when the marker-file check runs and
  its stdout is absent or does not contain \<^verbatim>\<open>ok\<close>, \<open>syncToR2\<close> returns
  \<open>success = False\<close> with the error that names \<^verbatim>\<open>clawdbot.json\<close>; the only command
  started is the check itself, so neither the rotation nor the transfer was issued.
\<close>

theorem missing_marker_aborts:
  assumes "\<not> not_configured env"
    and "mountR2Storage d env s = (True, s1)"
    and "startProcess d checkCmd s1 = (Inr checkProc, s2)"
    and "waitForProcess d checkProc 5000 s2 = (Inr (), s3)"
    and "getLogs d checkProc s3 = (Inr checkLogs, s4)"
    and "stdout checkLogs = None \<or>
         (\<exists>out. stdout checkLogs = Some out \<and> (\<nexists>pre post. out = pre @ ''ok'' @ post))"
  shows "syncToR2 d env s =
           (Inr \<lparr>success = False, lastSync = None,
                 error = Some ''Sync aborted: source missing clawdbot.json'',
                 details = Some (''The local config directory is missing critical files. '' @
                                 ''This could indicate corruption or an incomplete setup.'')\<rparr>,
            s4,
            [MountCall True, StartCall checkCmd (Inr checkProc),
             WaitCall checkProc 5000 (Inr ()), LogsCall checkProc (Inr checkLogs)]) \<and>
         started (snd (snd (syncToR2 d env s))) = [checkCmd] \<and>
         rotateCmd d \<notin> set (started (snd (snd (syncToR2 d env s)))) \<and>
         syncCmd d \<notin> set (started (snd (snd (syncToR2 d env s))))"
proof -
  have "\<not> has_ok checkLogs"
    using assms(6) by (auto simp: has_ok_def includes_str_iff)
  then have sc: "sanityCheck d s1 =
      (Inr (Some source_missing), s4,
       [StartCall checkCmd (Inr checkProc), WaitCall checkProc 5000 (Inr ()),
        LogsCall checkProc (Inr checkLogs)])"
    using sanityCheck_logs [OF assms(3) assms(4) assms(5)] by simp
  have run: "syncToR2 d env s =
      (Inr source_missing, s4,
       [MountCall True, StartCall checkCmd (Inr checkProc),
        WaitCall checkProc 5000 (Inr ()), LogsCall checkProc (Inr checkLogs)])"
    using assms(1) by (simp add: syncToR2_def seq_def call_mount_eq [OF assms(2)] sc ret_def)
  have r: "rotateCmd d \<noteq> checkCmd"
    by (simp add: rotateCmd_def checkCmd_def nl_def)
  have t: "syncCmd d \<noteq> checkCmd"
    by (simp add: syncCmd_def checkCmd_def)
  show ?thesis
    using r t by (simp add: run source_missing_def failure_def)
qed

text \<open>Claim C1 on the scripted sandbox whose check prints nothing.\<close>

theorem missing_marker_aborts_witness:
  "syncToR2 (mockSandbox True noManifest) mockEnvWithR2 [Inr (createMockProcess [] 0)] =
     (Inr \<lparr>success = False, lastSync = None,
           error = Some ''Sync aborted: source missing clawdbot.json'',
           details = Some (''The local config directory is missing critical files. '' @
                           ''This could indicate corruption or an incomplete setup.'')\<rparr>,
      [],
      [MountCall True, StartCall checkCmd (Inr (createMockProcess [] 0)),
       WaitCall (createMockProcess [] 0) 5000 (Inr ()),
       LogsCall (createMockProcess [] 0) (Inr \<lparr>stdout = Some [], stderr = Some []\<rparr>)]) \<and>
   started (snd (snd (syncToR2 (mockSandbox True noManifest) mockEnvWithR2
                        [Inr (createMockProcess [] 0)]))) = [checkCmd]"
proof -
  let ?d = "mockSandbox True noManifest"
  let ?p = "createMockProcess [] 0"
  have h1: "\<not> not_configured mockEnvWithR2"
    by (simp add: not_configured_def mockEnvWithR2_def falsy_def)
  have h2: "mountR2Storage ?d mockEnvWithR2 [Inr ?p] = (True, [Inr ?p])"
    by (simp add: mockSandbox_def)
  have h3: "startProcess ?d checkCmd [Inr ?p] = (Inr ?p, [])"
    by (simp add: mockSandbox_def mock_start_def)
  have h4: "waitForProcess ?d ?p 5000 [] = (Inr (), [])"
    by (simp add: mockSandbox_def)
  have h5: "getLogs ?d ?p [] = (Inr \<lparr>stdout = Some [], stderr = Some []\<rparr>, [])"
    by (simp add: mockSandbox_def createMockProcess_def)
  have h6: "stdout \<lparr>stdout = Some [], stderr = Some []\<rparr> = None \<or>
      (\<exists>out. stdout \<lparr>stdout = Some [], stderr = Some []\<rparr> = Some out \<and>
             (\<nexists>pre post. out = pre @ ''ok'' @ post))"
    by simp
  from missing_marker_aborts [OF h1 h2 h3 h4 h5 h6] show ?thesis by simp
qed

subsection \<open>A successful cycle\<close>

lemma seq_Inr_elim:
  "seq m f s = (Inr r, s', t) \<Longrightarrow> \<exists>a s1 t1 t2. m s = (Inr a, s1, t1) \<and> f a s1 = (Inr r, s', t2)"
  by (auto simp: seq_def split: prod.splits sum.splits)

lemma conclude_success_elim:
  "conclude d proc tok s = (Inr r, s', t) \<Longrightarrow> success r \<Longrightarrow>
   well_formed_token tok \<and> lastSync r = tok"
  by (auto simp: conclude_def ret_def seq_def call_logs_def failure_def
      split: if_splits prod.splits sum.splits)

lemma syncBody_success:
  assumes "syncBody d s = (Inr r, s', t)" and "success r"
  shows "well_formed_token (lastSync r)"
proof -
  from seq_Inr_elim [OF assms(1) [unfolded syncBody_def]]
  obtain s1 t1' where e1:
    "seq (transferStep d) (\<lambda>proc. seq (manifestStep d) (\<lambda>es. seq (persistStep d es) (\<lambda>_.
       seq (readTimestamp d) (\<lambda>tok. conclude d proc tok)))) s1 = (Inr r, s', t1')"
    by blast
  from seq_Inr_elim [OF e1]
  obtain proc s2 t2' where e2:
    "seq (manifestStep d) (\<lambda>es. seq (persistStep d es) (\<lambda>_.
       seq (readTimestamp d) (\<lambda>tok. conclude d proc tok))) s2 = (Inr r, s', t2')"
    by blast
  from seq_Inr_elim [OF e2]
  obtain es s3 t3' where e3:
    "seq (persistStep d es) (\<lambda>_. seq (readTimestamp d) (\<lambda>tok. conclude d proc tok)) s3 =
       (Inr r, s', t3')"
    by blast
  from seq_Inr_elim [OF e3]
  obtain s4 t4' where e4:
    "seq (readTimestamp d) (\<lambda>tok. conclude d proc tok) s4 = (Inr r, s', t4')"
    by blast
  from seq_Inr_elim [OF e4]
  obtain tok s5 t5' where e5: "conclude d proc tok s5 = (Inr r, s', t5')"
    by blast
  from conclude_success_elim [OF e5 assms(2)] show ?thesis
    by simp
qed

lemma sanityCheck_early:
  assumes "sanityCheck d s = (Inr (Some r), s', t)"
  shows "\<not> success r"
proof -
  let ?inner = "seq (call_start d checkCmd) (\<lambda>checkProc.
        seq (call_wait d checkProc 5000) (\<lambda>_.
        seq (call_logs d checkProc) (\<lambda>checkLogs.
          ret (if \<not> has_ok checkLogs then Some source_missing else None))))"
  obtain x s1 t1 where i: "?inner s = (x, s1, t1)"
    by (cases "?inner s")
  show ?thesis
  proof (cases x)
    case (Inl e)
    with i assms have "r = failure ''Failed to verify source files''
        (Some (message_or e ''Unknown error''))"
      by (simp add: sanityCheck_def try_catch_def ret_def)
    then show ?thesis by (simp add: failure_def)
  next
    case (Inr a)
    with i assms have a: "?inner s = (Inr (Some r), s', t)"
      by (simp add: sanityCheck_def try_catch_def)
    from seq_Inr_elim [OF a]
    obtain p s2 t2 where e1: "seq (call_wait d p 5000) (\<lambda>_.
        seq (call_logs d p) (\<lambda>checkLogs.
          ret (if \<not> has_ok checkLogs then Some source_missing else None))) s2 =
        (Inr (Some r), s', t2)"
      by blast
    from seq_Inr_elim [OF e1]
    obtain s3 t3 where e2: "seq (call_logs d p) (\<lambda>checkLogs.
          ret (if \<not> has_ok checkLogs then Some source_missing else None)) s3 =
        (Inr (Some r), s', t3)"
      by blast
    from seq_Inr_elim [OF e2] have "r = source_missing"
      by (auto simp: ret_def split: if_splits)
    then show ?thesis by (simp add: source_missing_def failure_def)
  qed
qed

lemma syncToR2_success:
  assumes "syncToR2 d env s = (Inr r, s', t)" and "success r"
  shows "well_formed_token (lastSync r)"
proof (cases "not_configured env")
  case True
  with assms show ?thesis
    by (auto simp: syncToR2_def ret_def failure_def)
next
  case False
  obtain b s1 where m: "mountR2Storage d env s = (b, s1)"
    by (cases "mountR2Storage d env s")
  show ?thesis
  proof (cases b)
    case False
    with m \<open>\<not> not_configured env\<close> assms show ?thesis
      by (auto simp: syncToR2_def seq_def call_mount_def ret_def failure_def)
  next
    case True
    obtain early s2 t2 where sc: "sanityCheck d s1 = (Inr early, s2, t2)"
      using sanityCheck_returns [of d s1] by blast
    show ?thesis
    proof (cases early)
      case (Some r')
      with m True sc \<open>\<not> not_configured env\<close> assms(1) have "r = r'"
        by (simp add: syncToR2_def seq_def call_mount_def ret_def)
      with sanityCheck_early [of d s1 r' s2 t2] sc Some assms(2) show ?thesis by simp
    next
      case None
      have run: "syncToR2 d env s =
          (case syncBody d s2 of
             (Inl e, s', t) \<Rightarrow>
               (Inr (failure ''Sync error'' (Some (message_or e ''Unknown error''))), s',
                MountCall True # t2 @ t)
           | (Inr r, s', t) \<Rightarrow> (Inr r, s', MountCall True # t2 @ t))"
        using syncToR2_body [OF \<open>\<not> not_configured env\<close>] m True sc None by simp
      obtain x s3 t3 where b: "syncBody d s2 = (x, s3, t3)"
        by (cases "syncBody d s2")
      show ?thesis
      proof (cases x)
        case (Inl e)
        with run b assms show ?thesis
          by (auto simp: failure_def)
      next
        case (Inr r')
        with run b assms(1) have "r = r'" by simp
        with Inr b assms(2) syncBody_success [of d s2 r' s3 t3] show ?thesis by simp
      qed
    qed
  qed
qed

lemma trim_keeps_prefix:
  assumes "p \<noteq> []" and "\<forall>c \<in> set p. \<not> is_ws c"
  shows "\<exists>rest'. trim (p @ rest) = p @ rest'"
proof -
  have front: "dropWhile is_ws (p @ rest) = p @ rest"
    using assms by (cases p) auto
  show ?thesis
  proof (cases "\<forall>c \<in> set (rev rest). is_ws c")
    case True
    have "dropWhile is_ws (rev rest @ rev p) = dropWhile is_ws (rev p)"
      by (rule dropWhile_append2) (use True in auto)
    moreover have "dropWhile is_ws (rev p) = rev p"
      using assms by (cases "rev p") auto
    ultimately have "trim (p @ rest) = p @ []"
      by (simp add: trim_def front)
    then show ?thesis by blast
  next
    case False
    then obtain c where "c \<in> set (rev rest)" "\<not> is_ws c" by blast
    then have "dropWhile is_ws (rev rest @ rev p) = dropWhile is_ws (rev rest) @ rev p"
      by (rule dropWhile_append1)
    then have "trim (p @ rest) = p @ rev (dropWhile is_ws (rev rest))"
      by (simp add: trim_def front)
    then show ?thesis by blast
  qed
qed

lemma digit_not_ws: "c \<in> set ''0123456789-'' \<Longrightarrow> \<not> is_ws c"
  by (auto simp: is_ws_def)

lemma trim_keeps_date:
  assumes "w = y @ ''-'' @ m @ ''-'' @ dd @ rest"
    and "length y = 4" and "length m = 2" and "length dd = 2"
    and "\<forall>c \<in> set (y @ m @ dd). c \<in> set ''0123456789''"
  shows "\<exists>rest'. trim w = y @ ''-'' @ m @ ''-'' @ dd @ rest'"
proof -
  have ne: "y @ ''-'' @ m @ ''-'' @ dd \<noteq> []" by simp
  have "\<forall>c \<in> set (y @ ''-'' @ m @ ''-'' @ dd). c \<in> set ''0123456789-''"
    using assms(5) by fastforce
  then have nws: "\<forall>c \<in> set (y @ ''-'' @ m @ ''-'' @ dd). \<not> is_ws c"
    using digit_not_ws by blast
  from trim_keeps_prefix [OF ne nws, of rest] assms(1) show ?thesis by simp
qed


lemma persistStep_run:
  assumes "startProcess d
       (''cat > '' @ R2_MOUNT_PATH d @ ''/.manifest.json << '' @ [sq] @ ''EOFMANIFEST'' @ [sq] @
        [nl] @
        JSON_stringify d \<lparr>version = 1, timestamp = Date_toISOString d s5, entries = es\<rparr> @
        [nl] @ ''EOFMANIFEST'' @ [nl] @
        ''date -Iseconds > '' @ R2_MOUNT_PATH d @ ''/.last-sync'') s5 = (Inr writeProc, s5a)"
    and "waitForProcess d writeProc 5000 s5a = (Inr (), s6)"
  shows "persistStep d es s5 =
     (Inr (), s6,
      [StartCall
         (''cat > '' @ R2_MOUNT_PATH d @ ''/.manifest.json << '' @ [sq] @ ''EOFMANIFEST'' @ [sq] @
          [nl] @
          JSON_stringify d \<lparr>version = 1, timestamp = Date_toISOString d s5, entries = es\<rparr> @
          [nl] @ ''EOFMANIFEST'' @ [nl] @
          ''date -Iseconds > '' @ R2_MOUNT_PATH d @ ''/.last-sync'') (Inr writeProc),
       WaitCall writeProc 5000 (Inr ())])"
  using assms
  by (simp add: persistStep_def writeManifestCmd_def seq_def call_start_def call_wait_def)

lemma readTimestamp_run:
  assumes "startProcess d (''cat '' @ R2_MOUNT_PATH d @ ''/.last-sync'') s6 =
      (Inr timestampProc, s6a)"
    and "waitForProcess d timestampProc 5000 s6a = (Inr (), s6b)"
    and "getLogs d timestampProc s6b = (Inr timestampLogs, s7)"
  shows "readTimestamp d s6 =
     (Inr (map_option trim (stdout timestampLogs)), s7,
      [StartCall (''cat '' @ R2_MOUNT_PATH d @ ''/.last-sync'') (Inr timestampProc),
       WaitCall timestampProc 5000 (Inr ()), LogsCall timestampProc (Inr timestampLogs)])"
  using assms
  by (simp add: readTimestamp_def timestampCmd_def seq_def call_start_def call_wait_def
      call_logs_def ret_def)

text \<open>
  Claim C2. Every step succeeds: the storage is configured and mounted, the sanity check
  passes, rotation, transfer and manifest generation return, and the write of manifest and
  token is started with the text of the source, returns and exits with status 0. The token
  written is the content \<open>written\<close> of \<^verbatim>\<open>.last-sync\<close> after that write, which starts with
  a date as \<^verbatim>\<open>date -Iseconds\<close> prints it; the \<^verbatim>\<open>cat\<close> of the file prints that content.
  Then \<open>syncToR2\<close> returns \<open>success = True\<close> with \<open>lastSync\<close> the written token without its
  surrounding white space (the newline that ends the line), and that value starts with the
  same four digits, dash, two digits, dash, two digits. The format is also enforced by the
  code itself: in every run of \<open>syncToR2\<close> that returns \<open>success = True\<close>, \<open>lastSync\<close> is
  present and has that format.
\<close>

theorem full_cycle_succeeds:
  assumes "\<not> not_configured env"
    and "mountR2Storage d env s = (True, s1)"
    and "sanityCheck d s1 = (Inr None, s2, t2)"
    and "rotateStep d s2 = (Inr (), s3, t3)"
    and "transferStep d s3 = (Inr proc, s4, t4)"
    and "manifestStep d s4 = (Inr es, s5, t5)"
    and "startProcess d
           (''cat > '' @ R2_MOUNT_PATH d @ ''/.manifest.json << '' @ [sq] @ ''EOFMANIFEST'' @
            [sq] @ [nl] @
            JSON_stringify d \<lparr>version = 1, timestamp = Date_toISOString d s5, entries = es\<rparr> @
            [nl] @ ''EOFMANIFEST'' @ [nl] @
            ''date -Iseconds > '' @ R2_MOUNT_PATH d @ ''/.last-sync'') s5 = (Inr writeProc, s5a)"
    and "waitForProcess d writeProc 5000 s5a = (Inr (), s6)"
    and "exitCode d writeProc s6 = Some 0"
    and "readFile d (R2_MOUNT_PATH d @ ''/.last-sync'') s6 = Some written"
    and "written = y @ ''-'' @ m @ ''-'' @ dd @ rest"
    and "length y = 4 \<and> length m = 2 \<and> length dd = 2"
    and "\<forall>c \<in> set (y @ m @ dd). c \<in> set ''0123456789''"
    and "startProcess d (''cat '' @ R2_MOUNT_PATH d @ ''/.last-sync'') s6 =
           (Inr timestampProc, s6a)"
    and "waitForProcess d timestampProc 5000 s6a = (Inr (), s6b)"
    and "getLogs d timestampProc s6b = (Inr timestampLogs, s7)"
    and "stdout timestampLogs = readFile d (R2_MOUNT_PATH d @ ''/.last-sync'') s6"
  shows "syncToR2 d env s =
           (Inr \<lparr>success = True, lastSync = Some (trim written), error = None, details = None\<rparr>,
            s7,
            MountCall True # t2 @ t3 @ t4 @ t5 @
            [StartCall
               (''cat > '' @ R2_MOUNT_PATH d @ ''/.manifest.json << '' @ [sq] @ ''EOFMANIFEST'' @
                [sq] @ [nl] @
                JSON_stringify d
                  \<lparr>version = 1, timestamp = Date_toISOString d s5, entries = es\<rparr> @
                [nl] @ ''EOFMANIFEST'' @ [nl] @
                ''date -Iseconds > '' @ R2_MOUNT_PATH d @ ''/.last-sync'') (Inr writeProc),
             WaitCall writeProc 5000 (Inr ()),
             StartCall (''cat '' @ R2_MOUNT_PATH d @ ''/.last-sync'') (Inr timestampProc),
             WaitCall timestampProc 5000 (Inr ()),
             LogsCall timestampProc (Inr timestampLogs)]) \<and>
         (\<exists>rest'. trim written = y @ ''-'' @ m @ ''-'' @ dd @ rest') \<and>
         (\<forall>env' s0 r s0' tr.
            syncToR2 d env' s0 = (Inr r, s0', tr) \<and> success r \<longrightarrow>
            (\<exists>tok y' m' dd' rest'.
               lastSync r = Some tok \<and> tok = y' @ ''-'' @ m' @ ''-'' @ dd' @ rest' \<and>
               length y' = 4 \<and> length m' = 2 \<and> length dd' = 2 \<and>
               (\<forall>c \<in> set (y' @ m' @ dd'). c \<in> set ''0123456789'')))"
proof -
  let ?w = "[StartCall
               (''cat > '' @ R2_MOUNT_PATH d @ ''/.manifest.json << '' @ [sq] @ ''EOFMANIFEST'' @
                [sq] @ [nl] @
                JSON_stringify d
                  \<lparr>version = 1, timestamp = Date_toISOString d s5, entries = es\<rparr> @
                [nl] @ ''EOFMANIFEST'' @ [nl] @
                ''date -Iseconds > '' @ R2_MOUNT_PATH d @ ''/.last-sync'') (Inr writeProc),
             WaitCall writeProc 5000 (Inr ())]"
  let ?c = "[StartCall (''cat '' @ R2_MOUNT_PATH d @ ''/.last-sync'') (Inr timestampProc),
             WaitCall timestampProc 5000 (Inr ()), LogsCall timestampProc (Inr timestampLogs)]"
  have ps: "persistStep d es s5 = (Inr (), s6, ?w)"
    using persistStep_run [OF assms(7) assms(8)] .
  have out: "stdout timestampLogs = Some written"
    using assms(17) assms(10) by simp
  have rt: "readTimestamp d s6 = (Inr (Some (trim written)), s7, ?c)"
    using readTimestamp_run [OF assms(14) assms(15) assms(16)] out by simp
  obtain rest' where kept: "trim written = y @ ''-'' @ m @ ''-'' @ dd @ rest'"
    using trim_keeps_date [OF assms(11)] assms(12) assms(13) by blast
  have "date_prefixed (trim written)"
    unfolding date_prefixed_iff using kept assms(12) assms(13) by blast
  then have wf: "well_formed_token (Some (trim written))"
    by (auto simp: well_formed_token_def)
  have body: "syncBody d s2 =
      (Inr \<lparr>success = True, lastSync = Some (trim written), error = None, details = None\<rparr>, s7,
       t3 @ t4 @ t5 @ ?w @ ?c)"
    by (simp add: syncBody_after_persist [OF assms(4) assms(5) assms(6) ps rt]
        conclude_def wf ret_def)
  have run: "syncToR2 d env s =
      (Inr \<lparr>success = True, lastSync = Some (trim written), error = None, details = None\<rparr>, s7,
       MountCall True # t2 @ t3 @ t4 @ t5 @ ?w @ ?c)"
    by (simp add: syncToR2_body [OF assms(1) assms(2) assms(3)] body)
  have general: "\<exists>tok y' m' dd' rest'.
      lastSync r = Some tok \<and> tok = y' @ ''-'' @ m' @ ''-'' @ dd' @ rest' \<and>
      length y' = 4 \<and> length m' = 2 \<and> length dd' = 2 \<and>
      (\<forall>c \<in> set (y' @ m' @ dd'). c \<in> set ''0123456789'')"
    if h: "syncToR2 d env' s0 = (Inr r, s0', tr)" "success r" for env' s0 r s0' tr
  proof -
    have "well_formed_token (lastSync r)"
      using syncToR2_success [OF h] .
    then obtain tok where tok: "lastSync r = Some tok" "date_prefixed tok"
      by (auto simp: well_formed_token_def split: option.splits)
    from tok(2) obtain y' m' dd' rest' where
      "tok = y' @ ''-'' @ m' @ ''-'' @ dd' @ rest'" "length y' = 4" "length m' = 2"
      "length dd' = 2" "\<forall>c \<in> set (y' @ m' @ dd'). c \<in> set ''0123456789''"
      unfolding date_prefixed_iff by blast
    with tok(1) show ?thesis by blast
  qed
  from run kept general show ?thesis
    by (intro conjI) (simp, blast, blast)
qed

lemma drop_prefix_append: "drop_prefix p (p @ s) = Some s"
  by (induction p) simp_all

lemma drop_suffix_append: "drop_suffix p (s @ p) = Some s"
  by (simp add: drop_suffix_def drop_prefix_append)

lemma heredoc_body_write:
  "heredoc_body
     (''cat > /data/moltbot/.manifest.json << '' @ [sq] @ ''EOFMANIFEST'' @ [sq] @ [nl] @
      body @ [nl] @ ''EOFMANIFEST'' @ [nl] @ ''date -Iseconds > /data/moltbot/.last-sync'') =
   Some body"
proof -
  have "drop_prefix (''cat > /data/moltbot/.manifest.json << '' @ [sq] @ ''EOFMANIFEST'' @
                     [sq] @ [nl])
      ((''cat > /data/moltbot/.manifest.json << '' @ [sq] @ ''EOFMANIFEST'' @ [sq] @ [nl]) @
       body @ [nl] @ ''EOFMANIFEST'' @ [nl] @ ''date -Iseconds > /data/moltbot/.last-sync'') =
      Some (body @ [nl] @ ''EOFMANIFEST'' @ [nl] @ ''date -Iseconds > /data/moltbot/.last-sync'')"
    by (rule drop_prefix_append)
  moreover have "drop_suffix ([nl] @ ''EOFMANIFEST'' @ [nl] @
                   ''date -Iseconds > /data/moltbot/.last-sync'')
      (body @ [nl] @ ''EOFMANIFEST'' @ [nl] @ ''date -Iseconds > /data/moltbot/.last-sync'') =
      Some body"
    by (rule drop_suffix_append)
  ultimately show ?thesis
    by (simp add: heredoc_body_def)
qed

lemma heredoc_body_other: "c \<noteq> CHR ''c'' \<Longrightarrow> heredoc_body (c # cmd) = None"
  by (simp add: heredoc_body_def)

lemmas fs_defs = fsSandbox_def fs_start_def fs_cat_def createMockProcess_def staleState_def

text \<open>Claim C2 on the sandbox with files, started with the token of an earlier cycle in
  the store: the cycle returns the token of its own write, which is then in the file.\<close>

theorem full_cycle_succeeds_witness:
  "fst (syncToR2 (fsSandbox firstManifest) mockEnvWithR2 staleState) =
     Inr \<lparr>success = True, lastSync = Some ''2026-01-27T12:00:00+00:00'', error = None,
          details = None\<rparr> \<and>
   readFile (fsSandbox firstManifest) ''/data/moltbot/.last-sync''
     (fst (snd (syncToR2 (fsSandbox firstManifest) mockEnvWithR2 staleState))) =
     Some (''2026-01-27T12:00:00+00:00'' @ [nl]) \<and>
   readFile (fsSandbox firstManifest) ''/data/moltbot/.last-sync'' staleState =
     Some (''2025-12-31T23:59:59+00:00'' @ [nl])"
proof -
  let ?d = "fsSandbox firstManifest"
  let ?ok = "createMockProcess [] 0"
  let ?st = "staleState\<lparr>fs_files :=
      (''/data/moltbot/.last-sync'', ''2026-01-27T12:00:00+00:00'' @ [nl]) #
      (''/data/moltbot/.manifest.json'', json_text firstManifest @ [nl]) #
      fs_files staleState\<rparr>"
  let ?tp = "\<lparr>mock_stdout = ''2026-01-27T12:00:00+00:00'' @ [nl], mock_stderr = [],
             mock_exitCode = 0\<rparr>"
  let ?tl = "\<lparr>stdout = Some (''2026-01-27T12:00:00+00:00'' @ [nl]), stderr = Some []\<rparr>"
  have h2: "mountR2Storage ?d mockEnvWithR2 staleState = (True, staleState)"
    by (simp add: fsSandbox_def)
  have "\<exists>t. sanityCheck ?d staleState = (Inr None, staleState, t)"
    by (simp add: sanityCheck_def run_defs fs_defs checkCmd_def has_ok_def nl_def)
  then obtain t2 where h3: "sanityCheck ?d staleState = (Inr None, staleState, t2)" ..
  have "\<exists>t. rotateStep ?d staleState = (Inr (), staleState, t)"
    by (simp add: rotateStep_def run_defs fs_defs rotateCmd_def heredoc_body_other nl_def)
  then obtain t3 where h4: "rotateStep ?d staleState = (Inr (), staleState, t3)" ..
  have "\<exists>t. transferStep ?d staleState = (Inr ?ok, staleState, t)"
    by (simp add: transferStep_def run_defs fs_defs syncCmd_def heredoc_body_other)
  then obtain t4 where h5: "transferStep ?d staleState = (Inr ?ok, staleState, t4)" ..
  have "\<exists>t. manifestStep ?d staleState = (Inr [], staleState, t)"
    by (simp add: manifestStep_def run_defs fs_defs manifestCmd_def heredoc_body_other nl_def
        manifestEntries_def trim_def)
  then obtain t5 where h6: "manifestStep ?d staleState = (Inr [], staleState, t5)" ..
  have doc: "JSON_stringify ?d
      \<lparr>version = 1, timestamp = Date_toISOString ?d staleState, entries = []\<rparr> =
      json_text firstManifest"
    by (simp add: fsSandbox_def firstManifest_def)
  have mp: "R2_MOUNT_PATH ?d = ''/data/moltbot''"
    by (simp add: fsSandbox_def)
  have h7: "startProcess ?d
      (''cat > '' @ R2_MOUNT_PATH ?d @ ''/.manifest.json << '' @ [sq] @ ''EOFMANIFEST'' @
       [sq] @ [nl] @
       JSON_stringify ?d
         \<lparr>version = 1, timestamp = Date_toISOString ?d staleState, entries = []\<rparr> @
       [nl] @ ''EOFMANIFEST'' @ [nl] @
       ''date -Iseconds > '' @ R2_MOUNT_PATH ?d @ ''/.last-sync'') staleState = (Inr ?ok, ?st)"
  proof -
    have "heredoc_body
        (''cat > '' @ R2_MOUNT_PATH ?d @ ''/.manifest.json << '' @ [sq] @ ''EOFMANIFEST'' @
         [sq] @ [nl] @
         JSON_stringify ?d
           \<lparr>version = 1, timestamp = Date_toISOString ?d staleState, entries = []\<rparr> @
         [nl] @ ''EOFMANIFEST'' @ [nl] @
         ''date -Iseconds > '' @ R2_MOUNT_PATH ?d @ ''/.last-sync'') =
        Some (json_text firstManifest)"
      using heredoc_body_write [of "json_text firstManifest"] by (simp add: doc mp)
    then show ?thesis
      by (simp add: fsSandbox_def fs_start_def createMockProcess_def staleState_def)
  qed
  have h8: "waitForProcess ?d ?ok 5000 ?st = (Inr (), ?st)"
    by (simp add: fsSandbox_def)
  have h9: "exitCode ?d ?ok ?st = Some 0"
    by (simp add: fsSandbox_def createMockProcess_def)
  have h10: "readFile ?d (R2_MOUNT_PATH ?d @ ''/.last-sync'') ?st =
      Some (''2026-01-27T12:00:00+00:00'' @ [nl])"
    by (simp add: fsSandbox_def)
  have h11: "''2026-01-27T12:00:00+00:00'' @ [nl] =
      ''2026'' @ ''-'' @ ''01'' @ ''-'' @ ''27'' @ (''T12:00:00+00:00'' @ [nl])"
    by simp
  have h12: "length ''2026'' = 4 \<and> length ''01'' = 2 \<and> length ''27'' = 2"
    by simp
  have h13: "\<forall>c \<in> set (''2026'' @ ''01'' @ ''27''). c \<in> set ''0123456789''"
    by simp
  have h14: "startProcess ?d (''cat '' @ R2_MOUNT_PATH ?d @ ''/.last-sync'') ?st = (Inr ?tp, ?st)"
    by (simp add: fs_defs heredoc_body_def)
  have h15: "waitForProcess ?d ?tp 5000 ?st = (Inr (), ?st)"
    by (simp add: fsSandbox_def)
  have h16: "getLogs ?d ?tp ?st = (Inr ?tl, ?st)"
    by (simp add: fsSandbox_def)
  have h17: "stdout ?tl = readFile ?d (R2_MOUNT_PATH ?d @ ''/.last-sync'') ?st"
    by (simp add: fsSandbox_def)
  have tr: "trim (''2026-01-27T12:00:00+00:00'' @ [nl]) = ''2026-01-27T12:00:00+00:00''"
    by (simp add: trim_def is_ws_def nl_def)
  have stale: "readFile ?d ''/data/moltbot/.last-sync'' staleState =
      Some (''2025-12-31T23:59:59+00:00'' @ [nl])"
    by (simp add: fsSandbox_def staleState_def)
  note inst = full_cycle_succeeds
    [OF mock_configured h2 h3 h4 h5 h6 h7 h8 h9 h10 h11 h12 h13 h14 h15 h16 h17,
     THEN conjunct1]
  have a: "fst (syncToR2 ?d mockEnvWithR2 staleState) =
      Inr \<lparr>success = True, lastSync = Some ''2026-01-27T12:00:00+00:00'', error = None,
           details = None\<rparr>"
    by (simp only: inst fst_conv tr)
  have st: "fst (snd (syncToR2 ?d mockEnvWithR2 staleState)) = ?st"
    by (simp only: inst fst_conv snd_conv)
  have b: "readFile ?d ''/data/moltbot/.last-sync''
      (fst (snd (syncToR2 ?d mockEnvWithR2 staleState))) =
      Some (''2026-01-27T12:00:00+00:00'' @ [nl])"
    unfolding st by (simp add: fsSandbox_def)
  show ?thesis
    by (intro conjI) (rule a, rule b, rule stale)
qed

subsection \<open>Verification reports every difference\<close>










subsection \<open>A failed transfer\<close>

text \<open>
  Claim C4 as stated fails on the queue of the repository's own test: the transfer exits
  with status 1, its stdout and stderr are empty, no token is read back, and the details
  are the fixed text \<^verbatim>\<open>No timestamp file created\<close>, which is not part of the transfer's
  output.
\<close>

theorem failed_transfer_details_fallback:
  "fst (syncToR2 (mockSandbox True noManifest) mockEnvWithR2 failedTransferQueue) =
     Inr \<lparr>success = False, lastSync = None, error = Some ''Sync failed'',
          details = Some ''No timestamp file created''\<rparr> \<and>
   failedTransferQueue ! 2 = Inr (createMockProcess [] 1) \<and>
   exitCode (mockSandbox True noManifest) (createMockProcess [] 1) [] = Some 1 \<and>
   getLogs (mockSandbox True noManifest) (createMockProcess [] 1) [] =
     (Inr \<lparr>stdout = Some [], stderr = Some []\<rparr>, [])"
proof -
  have "fst (syncToR2 (mockSandbox True noManifest) mockEnvWithR2 failedTransferQueue) =
      Inr (failure ''Sync failed'' (Some ''No timestamp file created''))"
    using mock_configured
    by (simp add: syncToR2_def sanityCheck_def syncBody_def rotateStep_def transferStep_def
        manifestStep_def persistStep_def readTimestamp_def conclude_def run_defs mock_defs
        failedTransferQueue_def has_ok_def well_formed_token_def trim_def or_else_def falsy_def)
  then show ?thesis
    by (simp add: failure_def failedTransferQueue_def mock_defs)
qed

text \<open>
  Claim C4, amended. After a transfer that was spawned and awaited and exited non-zero, the
  next command started is the manifest generation. If the manifest generation and the
  write of manifest and timestamp return, the token read back is not well formed and the
  transfer's logs can be read, the result is \<open>success = False\<close> with error
  \<^verbatim>\<open>Sync failed\<close>, and the details are the transfer's stderr if that is not empty,
  else its stdout if that is not empty, else the text \<^verbatim>\<open>No timestamp file created\<close>.
\<close>

theorem failed_transfer_reported:
  assumes "\<not> not_configured env"
    and "mountR2Storage d env s = (True, s1)"
    and "sanityCheck d s1 = (Inr None, s2, t2)"
    and "rotateStep d s2 = (Inr (), s3, t3)"
    and "startProcess d (syncCmd d) s3 = (Inr proc, s3a)"
    and "waitForProcess d proc 30000 s3a = (Inr (), s4)"
    and "exitCode d proc s4 \<noteq> Some 0"
  shows "take 4 (started (snd (snd (syncToR2 d env s)))) =
           [checkCmd, rotateCmd d, syncCmd d, manifestCmd d] \<and>
         (manifestStep d s4 = (Inr es, s5, t5) \<and>
          persistStep d es s5 = (Inr (), s6, t6) \<and>
          readTimestamp d s6 = (Inr tok, s7, t7) \<and>
          \<not> well_formed_token tok \<and>
          getLogs d proc s7 = (Inr transferLogs, s8) \<longrightarrow>
            syncToR2 d env s =
              (Inr \<lparr>success = False, lastSync = None, error = Some ''Sync failed'',
                    details = (if \<not> falsy (stderr transferLogs) then stderr transferLogs
                               else if \<not> falsy (stdout transferLogs) then stdout transferLogs
                               else Some ''No timestamp file created'')\<rparr>,
               s8,
               MountCall True # t2 @ t3 @
               [StartCall (syncCmd d) (Inr proc), WaitCall proc 30000 (Inr ())] @
               t5 @ t6 @ t7 @ [LogsCall proc (Inr transferLogs)]) \<and>
            started t6 =
              [writeManifestCmd d
                 \<lparr>version = 1, timestamp = Date_toISOString d s5, entries = es\<rparr>] \<and>
            started t7 = [timestampCmd d])"
proof -
  let ?t4 = "[StartCall (syncCmd d) (Inr proc), WaitCall proc 30000 (Inr ())]"
  let ?f = "\<lambda>es. seq (persistStep d es) (\<lambda>_.
              seq (readTimestamp d) (\<lambda>tok. conclude d proc tok))"
  have ts: "transferStep d s3 = (Inr proc, s4, ?t4)"
    using transferStep_run [OF assms(5) assms(6)] .
  obtain r5 s5' t5' where ms: "manifestStep d s4 = (r5, s5', t5')"
    by (cases "manifestStep d s4")
  obtain more where m: "started (snd (snd (seq (manifestStep d) ?f s4))) = started t5' @ more"
    using seq_started_prefix [where m = "manifestStep d" and f = ?f, OF ms] by blast
  have "started (snd (snd (syncBody d s2))) = rotateCmd d # syncCmd d # manifestCmd d # more"
    using m manifestStep_started [OF ms] rotateStep_started [OF assms(4)]
    by (auto simp: syncBody_after_transfer [OF assms(4) ts] started_append split: prod.splits)
  then have first: "take 4 (started (snd (snd (syncToR2 d env s)))) =
      [checkCmd, rotateCmd d, syncCmd d, manifestCmd d]"
    by (simp add: syncToR2_started [OF assms(1) assms(2) assms(3)])
  have second: "syncToR2 d env s =
      (Inr \<lparr>success = False, lastSync = None, error = Some ''Sync failed'',
            details = (if \<not> falsy (stderr transferLogs) then stderr transferLogs
                       else if \<not> falsy (stdout transferLogs) then stdout transferLogs
                       else Some ''No timestamp file created'')\<rparr>,
       s8,
       MountCall True # t2 @ t3 @ ?t4 @ t5 @ t6 @ t7 @ [LogsCall proc (Inr transferLogs)]) \<and>
      started t6 =
        [writeManifestCmd d \<lparr>version = 1, timestamp = Date_toISOString d s5, entries = es\<rparr>] \<and>
      started t7 = [timestampCmd d]"
    if h: "manifestStep d s4 = (Inr es, s5, t5)" "persistStep d es s5 = (Inr (), s6, t6)"
      "readTimestamp d s6 = (Inr tok, s7, t7)" "\<not> well_formed_token tok"
      "getLogs d proc s7 = (Inr transferLogs, s8)"
  proof -
    have "syncBody d s2 =
        (Inr \<lparr>success = False, lastSync = None, error = Some ''Sync failed'',
              details = (if \<not> falsy (stderr transferLogs) then stderr transferLogs
                         else if \<not> falsy (stdout transferLogs) then stdout transferLogs
                         else Some ''No timestamp file created'')\<rparr>,
         s8, t3 @ ?t4 @ t5 @ t6 @ t7 @ [LogsCall proc (Inr transferLogs)])"
      by (simp add: syncBody_after_persist [OF assms(4) ts h(1) h(2) h(3)]
          conclude_failed [OF h(4) h(5)])
    then show ?thesis
      using persistStep_started [OF h(2)] readTimestamp_started [OF h(3)]
      by (simp add: syncToR2_body [OF assms(1) assms(2) assms(3)])
  qed
  show ?thesis
    using first second by blast
qed

text \<open>Claim C4, amended, on the queue of the test of a failed rsync.\<close>

theorem failed_transfer_reported_witness:
  "take 4 (started (snd (snd (syncToR2 (mockSandbox True noManifest) mockEnvWithR2
                                failedTransferQueue)))) =
     [checkCmd, rotateCmd (mockSandbox True noManifest), syncCmd (mockSandbox True noManifest),
      manifestCmd (mockSandbox True noManifest)] \<and>
   fst (syncToR2 (mockSandbox True noManifest) mockEnvWithR2 failedTransferQueue) =
     Inr \<lparr>success = False, lastSync = None, error = Some ''Sync failed'',
          details = Some ''No timestamp file created''\<rparr> \<and>
   exitCode (mockSandbox True noManifest) (createMockProcess [] 1) (drop 3 failedTransferQueue)
     = Some 1"
proof -
  let ?d = "mockSandbox True noManifest"
  let ?q = failedTransferQueue
  let ?proc = "createMockProcess [] 1"
  let ?pl = "\<lparr>stdout = Some [], stderr = Some []\<rparr>"
  have h2: "mountR2Storage ?d mockEnvWithR2 ?q = (True, ?q)"
    by (simp add: mockSandbox_def)
  have "\<exists>t. sanityCheck ?d ?q = (Inr None, drop 1 ?q, t)"
    by (simp add: sanityCheck_def run_defs mock_defs failedTransferQueue_def has_ok_def)
  then obtain t2 where h3: "sanityCheck ?d ?q = (Inr None, drop 1 ?q, t2)" ..
  have "\<exists>t. rotateStep ?d (drop 1 ?q) = (Inr (), drop 2 ?q, t)"
    by (simp add: rotateStep_def run_defs mock_defs failedTransferQueue_def)
  then obtain t3 where h4: "rotateStep ?d (drop 1 ?q) = (Inr (), drop 2 ?q, t3)" ..
  have h5: "startProcess ?d (syncCmd ?d) (drop 2 ?q) = (Inr ?proc, drop 3 ?q)"
    by (simp add: mock_defs failedTransferQueue_def)
  have h6: "waitForProcess ?d ?proc 30000 (drop 3 ?q) = (Inr (), drop 3 ?q)"
    by (simp add: mockSandbox_def)
  have h7: "exitCode ?d ?proc (drop 3 ?q) = Some 1"
    by (simp add: mock_defs)
  have h7': "exitCode ?d ?proc (drop 3 ?q) \<noteq> Some 0"
    by (simp add: h7)
  have "\<exists>es t. manifestStep ?d (drop 3 ?q) = (Inr es, drop 4 ?q, t)"
    by (simp add: manifestStep_def run_defs mock_defs failedTransferQueue_def)
  then obtain es t5 where h8: "manifestStep ?d (drop 3 ?q) = (Inr es, drop 4 ?q, t5)" by blast
  have "\<exists>t. persistStep ?d es (drop 4 ?q) = (Inr (), drop 5 ?q, t)"
    by (simp add: persistStep_def run_defs mock_defs failedTransferQueue_def)
  then obtain t6 where h9: "persistStep ?d es (drop 4 ?q) = (Inr (), drop 5 ?q, t6)" ..
  have "\<exists>t. readTimestamp ?d (drop 5 ?q) = (Inr (Some []), [], t)"
    by (simp add: readTimestamp_def run_defs mock_defs failedTransferQueue_def trim_def)
  then obtain t7 where h10: "readTimestamp ?d (drop 5 ?q) = (Inr (Some []), [], t7)" ..
  have h11: "\<not> well_formed_token (Some [])"
    by (simp add: well_formed_token_def)
  have h12: "getLogs ?d ?proc [] = (Inr ?pl, [])"
    by (simp add: mock_defs)
  note inst = failed_transfer_reported [OF mock_configured h2 h3 h4 h5 h6 h7',
      of es "drop 4 ?q" t5 "drop 5 ?q" t6 "Some []" "[]" t7 ?pl "[]"]
  have a: "take 4 (started (snd (snd (syncToR2 ?d mockEnvWithR2 ?q)))) =
      [checkCmd, rotateCmd ?d, syncCmd ?d, manifestCmd ?d]"
    using inst by (rule conjunct1)
  have b: "fst (syncToR2 ?d mockEnvWithR2 ?q) =
      Inr \<lparr>success = False, lastSync = None, error = Some ''Sync failed'',
           details = Some ''No timestamp file created''\<rparr>"
    using inst [THEN conjunct2] h8 h9 h10 h11 h12 by (simp add: falsy_def)
  show ?thesis
    by (intro conjI) (rule a, rule b, rule h7)
qed

subsection \<open>Missing configuration\<close>

text \<open>
  Claim C5. When one of the three storage credentials is absent or empty, \<open>syncToR2\<close>
  returns the failure \<^verbatim>\<open>R2 storage is not configured\<close> and \<open>verifyR2Backup\<close> returns
  \<open>valid = False\<close> with that message; the sandbox state is unchanged and no call was made:
  no mount, no command.
\<close>

theorem not_configured_no_side_effect:
  assumes "R2_ACCESS_KEY_ID env \<in> {None, Some []} \<or>
           R2_SECRET_ACCESS_KEY env \<in> {None, Some []} \<or>
           CF_ACCOUNT_ID env \<in> {None, Some []}"
  shows "syncToR2 d env s =
           (Inr \<lparr>success = False, lastSync = None,
                 error = Some ''R2 storage is not configured'', details = None\<rparr>, s, []) \<and>
         verifyR2Backup d env s =
           (Inr \<lparr>valid = False, errors = [''R2 storage is not configured'']\<rparr>, s, [])"
proof -
  have "not_configured env"
    using assms by (auto simp: not_configured_def falsy_def)
  then show ?thesis
    by (simp add: syncToR2_def verifyR2Backup_def ret_def failure_def)
qed

text \<open>Claim C5 on the environment without credentials.\<close>

theorem not_configured_no_side_effect_witness:
  "syncToR2 (mockSandbox True noManifest) mockEnv [Inr (createMockProcess ''ok'' 0)] =
     (Inr \<lparr>success = False, lastSync = None,
           error = Some ''R2 storage is not configured'', details = None\<rparr>,
      [Inr (createMockProcess ''ok'' 0)], []) \<and>
   verifyR2Backup (mockSandbox True noManifest) mockEnv [Inr (createMockProcess ''ok'' 0)] =
     (Inr \<lparr>valid = False, errors = [''R2 storage is not configured'']\<rparr>,
      [Inr (createMockProcess ''ok'' 0)], [])"
  using not_configured_no_side_effect
          [of mockEnv "mockSandbox True noManifest" "[Inr (createMockProcess ''ok'' 0)]"]
  by (simp add: mockEnv_def)

subsection \<open>Rotation\<close>

text \<open>
  Claim C6 as stated fails when the rotation cannot be spawned: the rejection of
  \<open>startProcess\<close> is caught by the handler of the whole block, the cycle ends with
  \<^verbatim>\<open>Sync error\<close>, and the transfer is never started.
\<close>

theorem rotation_spawn_failure_aborts:
  "fst (syncToR2 (mockSandbox True noManifest) mockEnvWithR2 rejectedRotationQueue) =
     Inr \<lparr>success = False, lastSync = None, error = Some ''Sync error'',
          details = Some ''spawn failed''\<rparr> \<and>
   started (snd (snd (syncToR2 (mockSandbox True noManifest) mockEnvWithR2
                        rejectedRotationQueue))) =
     [checkCmd, rotateCmd (mockSandbox True noManifest)] \<and>
   syncCmd (mockSandbox True noManifest) \<notin>
     set (started (snd (snd (syncToR2 (mockSandbox True noManifest) mockEnvWithR2
                               rejectedRotationQueue))))"
proof -
  let ?d = "mockSandbox True noManifest"
  have run: "syncToR2 ?d mockEnvWithR2 rejectedRotationQueue =
      (Inr (failure ''Sync error'' (Some ''spawn failed'')), [],
       [MountCall True,
        StartCall checkCmd (Inr (createMockProcess ''ok'' 0)),
        WaitCall (createMockProcess ''ok'' 0) 5000 (Inr ()),
        LogsCall (createMockProcess ''ok'' 0) (Inr \<lparr>stdout = Some ''ok'', stderr = Some []\<rparr>),
        StartCall (rotateCmd ?d) (Inl (Error ''spawn failed''))])"
    using mock_configured
    by (simp add: syncToR2_def sanityCheck_def syncBody_def rotateStep_def run_defs mock_defs
        rejectedRotationQueue_def has_ok_def message_or_def)
  show ?thesis
    using syncCmd_neq [of ?d] by (simp add: run failure_def)
qed

text \<open>
  Claim C6, amended. Once the rotation script has been spawned and awaited, a non-zero exit
  status is tolerated: the transfer is the next command started, the whole run is the same
  whatever exit status the processes report, and when the later steps return and the
  token is well formed the cycle succeeds.
\<close>

theorem rotation_status_tolerated:
  assumes "\<not> not_configured env"
    and "mountR2Storage d env s = (True, s1)"
    and "sanityCheck d s1 = (Inr None, s2, t2)"
    and "startProcess d (rotateCmd d) s2 = (Inr rotateProc, s2a)"
    and "waitForProcess d rotateProc 15000 s2a = (Inr (), s3)"
    and "exitCode d rotateProc s3 \<noteq> Some 0"
  shows "take 3 (started (snd (snd (syncToR2 d env s)))) = [checkCmd, rotateCmd d, syncCmd d] \<and>
         syncToR2 (d\<lparr>exitCode := ec\<rparr>) env s = syncToR2 d env s \<and>
         (transferStep d s3 = (Inr proc, s4, t4) \<and>
          manifestStep d s4 = (Inr es, s5, t5) \<and>
          persistStep d es s5 = (Inr (), s6, t6) \<and>
          readTimestamp d s6 = (Inr tok, s7, t7) \<and>
          well_formed_token tok \<longrightarrow>
            syncToR2 d env s =
              (Inr \<lparr>success = True, lastSync = tok, error = None, details = None\<rparr>, s7,
               MountCall True # t2 @
               [StartCall (rotateCmd d) (Inr rotateProc), WaitCall rotateProc 15000 (Inr ())] @
               t4 @ t5 @ t6 @ t7))"
proof -
  let ?t3 = "[StartCall (rotateCmd d) (Inr rotateProc), WaitCall rotateProc 15000 (Inr ())]"
  let ?f = "\<lambda>proc.
             seq (manifestStep d) (\<lambda>es.
             seq (persistStep d es) (\<lambda>_.
             seq (readTimestamp d) (\<lambda>tok. conclude d proc tok)))"
  have rs: "rotateStep d s2 = (Inr (), s3, ?t3)"
    using rotateStep_run [OF assms(4) assms(5)] .
  obtain r4 s4' t4' where ts: "transferStep d s3 = (r4, s4', t4')"
    by (cases "transferStep d s3")
  obtain more where m: "started (snd (snd (seq (transferStep d) ?f s3))) = started t4' @ more"
    using seq_started_prefix [where m = "transferStep d" and f = ?f, OF ts] by blast
  have "started (snd (snd (syncBody d s2))) = rotateCmd d # syncCmd d # more"
    using m transferStep_started [OF ts]
    by (auto simp: syncBody_after_rotate [OF rs] started_append split: prod.splits)
  then have first: "take 3 (started (snd (snd (syncToR2 d env s)))) =
      [checkCmd, rotateCmd d, syncCmd d]"
    by (simp add: syncToR2_started [OF assms(1) assms(2) assms(3)])
  have third: "syncToR2 d env s =
      (Inr \<lparr>success = True, lastSync = tok, error = None, details = None\<rparr>, s7,
       MountCall True # t2 @ ?t3 @ t4 @ t5 @ t6 @ t7)"
    if h: "transferStep d s3 = (Inr proc, s4, t4)" "manifestStep d s4 = (Inr es, s5, t5)"
      "persistStep d es s5 = (Inr (), s6, t6)" "readTimestamp d s6 = (Inr tok, s7, t7)"
      "well_formed_token tok"
  proof -
    have "syncBody d s2 =
        (Inr \<lparr>success = True, lastSync = tok, error = None, details = None\<rparr>, s7,
         ?t3 @ t4 @ t5 @ t6 @ t7)"
      by (simp add: syncBody_after_persist [OF rs h(1) h(2) h(3) h(4)] conclude_def h(5) ret_def)
    then show ?thesis
      by (simp add: syncToR2_body [OF assms(1) assms(2) assms(3)])
  qed
  show ?thesis
    using first third by (simp add: syncToR2_exitCode)
qed

text \<open>Claim C6, amended, on a queue whose rotation exits with status 1 and whose other
  steps succeed.\<close>

theorem rotation_status_tolerated_witness:
  "take 3 (started (snd (snd (syncToR2 (mockSandbox True noManifest) mockEnvWithR2
                                failedRotationQueue)))) =
     [checkCmd, rotateCmd (mockSandbox True noManifest), syncCmd (mockSandbox True noManifest)] \<and>
   exitCode (mockSandbox True noManifest) (createMockProcess [] 1) (drop 2 failedRotationQueue)
     = Some 1 \<and>
   fst (syncToR2 (mockSandbox True noManifest) mockEnvWithR2 failedRotationQueue) =
     Inr \<lparr>success = True, lastSync = Some ''2026-01-27T12:00:00+00:00'', error = None,
          details = None\<rparr>"
proof -
  let ?d = "mockSandbox True noManifest"
  let ?q = failedRotationQueue
  let ?rp = "createMockProcess [] 1"
  have h2: "mountR2Storage ?d mockEnvWithR2 ?q = (True, ?q)"
    by (simp add: mockSandbox_def)
  have "\<exists>t. sanityCheck ?d ?q = (Inr None, drop 1 ?q, t)"
    by (simp add: sanityCheck_def run_defs mock_defs failedRotationQueue_def has_ok_def)
  then obtain t2 where h3: "sanityCheck ?d ?q = (Inr None, drop 1 ?q, t2)" ..
  have h4: "startProcess ?d (rotateCmd ?d) (drop 1 ?q) = (Inr ?rp, drop 2 ?q)"
    by (simp add: mock_defs failedRotationQueue_def)
  have h5: "waitForProcess ?d ?rp 15000 (drop 2 ?q) = (Inr (), drop 2 ?q)"
    by (simp add: mockSandbox_def)
  have h6: "exitCode ?d ?rp (drop 2 ?q) = Some 1"
    by (simp add: mock_defs)
  have h6': "exitCode ?d ?rp (drop 2 ?q) \<noteq> Some 0"
    by (simp add: h6)
  have "\<exists>t. transferStep ?d (drop 2 ?q) = (Inr (createMockProcess [] 0), drop 3 ?q, t)"
    by (simp add: transferStep_def run_defs mock_defs failedRotationQueue_def)
  then obtain t4 where
    h7: "transferStep ?d (drop 2 ?q) = (Inr (createMockProcess [] 0), drop 3 ?q, t4)" ..
  have "\<exists>es t. manifestStep ?d (drop 3 ?q) = (Inr es, drop 4 ?q, t)"
    by (simp add: manifestStep_def run_defs mock_defs failedRotationQueue_def)
  then obtain es t5 where h8: "manifestStep ?d (drop 3 ?q) = (Inr es, drop 4 ?q, t5)" by blast
  have "\<exists>t. persistStep ?d es (drop 4 ?q) = (Inr (), drop 5 ?q, t)"
    by (simp add: persistStep_def run_defs mock_defs failedRotationQueue_def)
  then obtain t6 where h9: "persistStep ?d es (drop 4 ?q) = (Inr (), drop 5 ?q, t6)" ..
  have "\<exists>t. readTimestamp ?d (drop 5 ?q) = (Inr (Some ''2026-01-27T12:00:00+00:00''), [], t)"
    by (simp add: readTimestamp_def run_defs mock_defs failedRotationQueue_def trim_def is_ws_def)
  then obtain t7 where
    h10: "readTimestamp ?d (drop 5 ?q) = (Inr (Some ''2026-01-27T12:00:00+00:00''), [], t7)" ..
  have h11: "well_formed_token (Some ''2026-01-27T12:00:00+00:00'')"
    by (simp add: well_formed_token_def is_digit_def)
  note inst = rotation_status_tolerated [OF mock_configured h2 h3 h4 h5 h6',
      of _ "createMockProcess [] 0" "drop 3 ?q" t4 es "drop 4 ?q" t5 "drop 5 ?q" t6
        "Some ''2026-01-27T12:00:00+00:00''" "[]" t7]
  have a: "take 3 (started (snd (snd (syncToR2 ?d mockEnvWithR2 ?q)))) =
      [checkCmd, rotateCmd ?d, syncCmd ?d]"
    using inst by (rule conjunct1)
  have b: "fst (syncToR2 ?d mockEnvWithR2 ?q) =
      Inr \<lparr>success = True, lastSync = Some ''2026-01-27T12:00:00+00:00'', error = None,
           details = None\<rparr>"
    using inst [THEN conjunct2, THEN conjunct2] h7 h8 h9 h10 h11 by simp
  show ?thesis
    by (intro conjI) (rule a, rule h6, rule b)
qed

subsection \<open>Malformed manifest records\<close>

text \<open>
  Claim C7 as stated fails: a record whose size field is not a number is not skipped; it
  is kept with size 0.
\<close>

theorem unparsable_size_not_skipped:
  "parseInt ''oops'' = None \<and>
   manifestEntries (Some (''skills/a.md|def456|oops'' @ [nl])) =
     [\<lparr>path = ''skills/a.md'', checksum = ''def456'', size_bytes = 0\<rparr>]"
  by (simp add: manifestEntries_def entryOfLine_def parseInt_def trim_def is_ws_def is_digit_def
      nl_def)

text \<open>
  Claim C7, amended. When the manifest command printed the lines \<open>ls\<close>, the manifest has
  one entry for each line that contains a bar, in order, and none for the others; a line of
  three fields gives an entry with its path and checksum, and with the size parsed, or 0
  when the size field does not parse as an integer. No line stops the manifest.
\<close>

theorem unparsable_size_kept_as_zero:
  assumes "ls \<noteq> []"
    and "\<forall>l \<in> set ls. nl \<notin> set l"
    and "trim out = join_with nl ls"
  shows "manifestEntries (Some out) = map entryOfLine (filter (\<lambda>l. CHR ''|'' \<in> set l) ls) \<and>
         (\<forall>p c sz. p @ ''|'' @ c @ ''|'' @ sz \<in> set ls \<and>
             CHR ''|'' \<notin> set p \<and> CHR ''|'' \<notin> set c \<and> CHR ''|'' \<notin> set sz \<longrightarrow>
             \<lparr>path = p, checksum = c,
              size_bytes = (case parseInt sz of None \<Rightarrow> 0 | Some n \<Rightarrow> n)\<rparr>
               \<in> set (manifestEntries (Some out)))"
proof -
  have sp: "split_on nl (trim out) = ls"
    using assms by (simp add: split_on_join)
  have me: "manifestEntries (Some out) = map entryOfLine (filter (\<lambda>l. CHR ''|'' \<in> set l) ls)"
    by (simp add: manifestEntries_def sp)
  have "\<lparr>path = p, checksum = c,
         size_bytes = (case parseInt sz of None \<Rightarrow> 0 | Some n \<Rightarrow> n)\<rparr>
          \<in> set (manifestEntries (Some out))"
    if h: "p @ ''|'' @ c @ ''|'' @ sz \<in> set ls"
      "CHR ''|'' \<notin> set p" "CHR ''|'' \<notin> set c" "CHR ''|'' \<notin> set sz"
    for p c sz
  proof -
    have "p @ ''|'' @ c @ ''|'' @ sz \<in> set (filter (\<lambda>l. CHR ''|'' \<in> set l) ls)"
      using h(1) by simp
    then have "entryOfLine (p @ ''|'' @ c @ ''|'' @ sz) \<in> set (manifestEntries (Some out))"
      unfolding me by (simp only: set_map) (rule imageI)
    then show ?thesis
      by (simp only: entryOfLine_fields [OF h(2) h(3) h(4)])
  qed
  with me show ?thesis by blast
qed

text \<open>Claim C7, amended, on a listing with a line of noise and an unparsable size.\<close>

theorem unparsable_size_kept_as_zero_witness:
  "manifestEntries (Some (join_with nl listing @ [nl])) =
     [\<lparr>path = ''clawdbot/clawdbot.json'', checksum = ''abc123'', size_bytes = 100\<rparr>,
      \<lparr>path = ''skills/a.md'', checksum = ''def456'', size_bytes = 0\<rparr>] \<and>
   \<lparr>path = ''skills/a.md'', checksum = ''def456'', size_bytes = 0\<rparr>
     \<in> set (manifestEntries (Some (join_with nl listing @ [nl])))"
proof -
  let ?out = "join_with nl listing @ [nl]"
  have h1: "listing \<noteq> []"
    by (simp add: listing_def)
  have h2: "\<forall>l \<in> set listing. nl \<notin> set l"
    by (simp add: listing_def nl_def)
  have h3: "trim ?out = join_with nl listing"
    by (simp add: listing_def trim_def is_ws_def nl_def)
  note inst = unparsable_size_kept_as_zero [OF h1 h2 h3]
  have e1: "entryOfLine ''clawdbot/clawdbot.json|abc123|100'' =
      \<lparr>path = ''clawdbot/clawdbot.json'', checksum = ''abc123'', size_bytes = 100\<rparr>"
    by (simp add: entryOfLine_def parseInt_def to_double_def is_ws_def is_digit_def digit_val_def)
  have e2: "entryOfLine ''skills/a.md|def456|oops'' =
      \<lparr>path = ''skills/a.md'', checksum = ''def456'', size_bytes = 0\<rparr>"
    by (simp add: entryOfLine_def parseInt_def is_ws_def is_digit_def)
  have a: "manifestEntries (Some ?out) =
      [\<lparr>path = ''clawdbot/clawdbot.json'', checksum = ''abc123'', size_bytes = 100\<rparr>,
       \<lparr>path = ''skills/a.md'', checksum = ''def456'', size_bytes = 0\<rparr>]"
    using inst [THEN conjunct1] e1 e2 by (simp add: listing_def)
  have p: "parseInt ''oops'' = None"
    by (simp add: parseInt_def is_ws_def is_digit_def)
  have b: "\<lparr>path = ''skills/a.md'', checksum = ''def456'', size_bytes = 0\<rparr>
      \<in> set (manifestEntries (Some ?out))"
    using inst [THEN conjunct2, rule_format, of "''skills/a.md''" "''def456''" "''oops''"] p
    by (simp add: listing_def)
  show ?thesis
    by (rule conjI [OF a b])
qed

subsection \<open>A missing manifest\<close>

text \<open>
  Claim C8. With the storage configured and mounted, when reading the manifest yields no
  content (stdout absent or empty), \<open>verifyR2Backup\<close> returns \<open>valid = False\<close> with the
  single error \<^verbatim>\<open>No manifest found - backup may be from older version\<close>, as a value.
\<close>

theorem missing_manifest_invalid:
  assumes "\<not> not_configured env"
    and "mountR2Storage d env s = (True, s1)"
    and "startProcess d (readManifestCmd d) s1 = (Inr manifestProc, s2)"
    and "waitForProcess d manifestProc 5000 s2 = (Inr (), s3)"
    and "getLogs d manifestProc s3 = (Inr manifestLogs, s4)"
    and "stdout manifestLogs = None \<or> stdout manifestLogs = Some []"
  shows "verifyR2Backup d env s =
           (Inr \<lparr>valid = False,
                 errors = [''No manifest found - backup may be from older version'']\<rparr>,
            s4,
            [MountCall True, StartCall (readManifestCmd d) (Inr manifestProc),
             WaitCall manifestProc 5000 (Inr ()), LogsCall manifestProc (Inr manifestLogs)])"
proof -
  have body: "verifyBody d s1 =
      (Inr no_manifest, s4,
       [StartCall (readManifestCmd d) (Inr manifestProc), WaitCall manifestProc 5000 (Inr ()),
        LogsCall manifestProc (Inr manifestLogs)])"
    using assms(6)
    by (auto simp: verifyBody_def seq_def call_start_eq [OF assms(3)] call_wait_eq [OF assms(4)]
        call_logs_eq [OF assms(5)] ret_def)
  show ?thesis
    using assms(1)
    by (simp add: verifyR2Backup_def seq_def call_mount_eq [OF assms(2)] try_catch_def body
        no_manifest_def)
qed

text \<open>Claim C8 on the scripted sandbox whose \<^verbatim>\<open>cat\<close> prints nothing.\<close>

theorem missing_manifest_invalid_witness:
  "verifyR2Backup (mockSandbox True noManifest) mockEnvWithR2 [Inr (createMockProcess [] 1)] =
     (Inr \<lparr>valid = False,
           errors = [''No manifest found - backup may be from older version'']\<rparr>,
      [],
      [MountCall True,
       StartCall (readManifestCmd (mockSandbox True noManifest)) (Inr (createMockProcess [] 1)),
       WaitCall (createMockProcess [] 1) 5000 (Inr ()),
       LogsCall (createMockProcess [] 1) (Inr \<lparr>stdout = Some [], stderr = Some []\<rparr>)])"
proof -
  let ?d = "mockSandbox True noManifest"
  let ?p = "createMockProcess [] 1"
  have h1: "\<not> not_configured mockEnvWithR2"
    by (simp add: not_configured_def mockEnvWithR2_def falsy_def)
  have h2: "mountR2Storage ?d mockEnvWithR2 [Inr ?p] = (True, [Inr ?p])"
    by (simp add: mockSandbox_def)
  have h3: "startProcess ?d (readManifestCmd ?d) [Inr ?p] = (Inr ?p, [])"
    by (simp add: mockSandbox_def mock_start_def)
  have h4: "waitForProcess ?d ?p 5000 [] = (Inr (), [])"
    by (simp add: mockSandbox_def)
  have h5: "getLogs ?d ?p [] = (Inr \<lparr>stdout = Some [], stderr = Some []\<rparr>, [])"
    by (simp add: mockSandbox_def createMockProcess_def)
  have h6: "stdout \<lparr>stdout = Some [], stderr = Some []\<rparr> = None \<or>
      stdout \<lparr>stdout = Some [], stderr = Some []\<rparr> = Some []"
    by simp
  from missing_manifest_invalid [OF h1 h2 h3 h4 h5 h6] show ?thesis .
qed

subsection \<open>No exception leaves the module\<close>

text \<open>
  Claim C9. Whatever the environment, the sandbox state and the outcome of every call made
  to the sandbox (each of them may throw), \<open>syncToR2\<close> and \<open>verifyR2Backup\<close> return a
  result record; no exception leaves either function.
\<close>

theorem never_raises:
  "(\<exists>r s' t. syncToR2 d env s = (Inr r, s', t)) \<and>
   (\<exists>r s' t. verifyR2Backup d env s = (Inr r, s', t))"
  using syncToR2_returns [of d env s] verifyR2Backup_returns [of d env s] by blast

subsection \<open>The token decides the outcome\<close>

text \<open>
  Claim C10. When every step up to the read-back of the token returns, the success flag of
  \<open>syncToR2\<close> is decided by the trimmed stdout of the \<^verbatim>\<open>cat\<close> of \<^verbatim>\<open>.last-sync\<close>
  alone: it is true iff that token is non-empty and date-prefixed, and then \<open>lastSync\<close> is
  the token. This holds for any exit status \<open>ec\<close> the processes report, that of the
  transfer included; in each such run the command that writes the manifest and the token
  was started.
\<close>

theorem outcome_decided_by_token:
  assumes "\<not> not_configured env"
    and "mountR2Storage d env s = (True, s1)"
    and "sanityCheck d s1 = (Inr None, s2, t2)"
    and "rotateStep d s2 = (Inr (), s3, t3)"
    and "transferStep d s3 = (Inr proc, s4, t4)"
    and "manifestStep d s4 = (Inr es, s5, t5)"
    and "persistStep d es s5 = (Inr (), s6, t6)"
    and "startProcess d (timestampCmd d) s6 = (Inr timestampProc, s6a)"
    and "waitForProcess d timestampProc 5000 s6a = (Inr (), s6b)"
    and "getLogs d timestampProc s6b = (Inr timestampLogs, s7)"
  shows "\<exists>r s' t. syncToR2 (d\<lparr>exitCode := ec\<rparr>) env s = (Inr r, s', t) \<and>
           success r = well_formed_token (map_option trim (stdout timestampLogs)) \<and>
           (success r \<longrightarrow> lastSync r = map_option trim (stdout timestampLogs)) \<and>
           writeManifestCmd d \<lparr>version = 1, timestamp = Date_toISOString d s5, entries = es\<rparr>
             \<in> set (started t)"
proof -
  let ?tok = "map_option trim (stdout timestampLogs)"
  let ?t7 = "[StartCall (timestampCmd d) (Inr timestampProc),
              WaitCall timestampProc 5000 (Inr ()), LogsCall timestampProc (Inr timestampLogs)]"
  have rt: "readTimestamp d s6 = (Inr ?tok, s7, ?t7)"
    using readTimestamp_logs [OF assms(8) assms(9) assms(10)] .
  obtain r s' t where c:
    "try_catch (conclude d proc ?tok)
       (\<lambda>err. ret (failure ''Sync error'' (Some (message_or err ''Unknown error'')))) s7
     = (Inr r, s', t)"
    "success r = well_formed_token ?tok" "success r \<longrightarrow> lastSync r = ?tok"
    using conclude_success [of d proc ?tok s7] by blast
  have run: "syncToR2 d env s =
      (Inr r, s', MountCall True # t2 @ t3 @ t4 @ t5 @ t6 @ ?t7 @ t)"
    using c(1)
    by (auto simp: syncToR2_body [OF assms(1) assms(2) assms(3)]
        syncBody_after_persist [OF assms(4) assms(5) assms(6) assms(7) rt]
        try_catch_def ret_def split: prod.splits sum.splits)
  have "writeManifestCmd d \<lparr>version = 1, timestamp = Date_toISOString d s5, entries = es\<rparr>
      \<in> set (started (MountCall True # t2 @ t3 @ t4 @ t5 @ t6 @ ?t7 @ t))"
    using persistStep_started [OF assms(7)] by (simp add: started_append)
  with run c(2) c(3) show ?thesis
    by (simp add: syncToR2_exitCode)
qed

text \<open>Claim C10 on the successful queue, with every process reporting exit status 1.\<close>

theorem outcome_decided_by_token_witness:
  "map_sum id success
     (fst (syncToR2 (mockSandbox True noManifest\<lparr>exitCode := \<lambda>p q. Some 1\<rparr>)
             mockEnvWithR2 successQueue)) = Inr True \<and>
   map_sum id lastSync
     (fst (syncToR2 (mockSandbox True noManifest\<lparr>exitCode := \<lambda>p q. Some 1\<rparr>)
             mockEnvWithR2 successQueue)) = Inr (Some ''2026-01-27T12:00:00+00:00'')"
proof -
  let ?d = "mockSandbox True noManifest"
  let ?tp = "createMockProcess ''2026-01-27T12:00:00+00:00'' 0"
  let ?tl = "\<lparr>stdout = Some ''2026-01-27T12:00:00+00:00'', stderr = Some []\<rparr>"
  have h2: "mountR2Storage ?d mockEnvWithR2 successQueue = (True, successQueue)"
    by (simp add: mockSandbox_def)
  have "\<exists>t. sanityCheck ?d successQueue = (Inr None, drop 1 successQueue, t)"
    by (simp add: sanityCheck_def run_defs mock_defs successQueue_def has_ok_def)
  then obtain t2 where h3: "sanityCheck ?d successQueue = (Inr None, drop 1 successQueue, t2)" ..
  have "\<exists>t. rotateStep ?d (drop 1 successQueue) = (Inr (), drop 2 successQueue, t)"
    by (simp add: rotateStep_def run_defs mock_defs successQueue_def)
  then obtain t3 where h4: "rotateStep ?d (drop 1 successQueue) = (Inr (), drop 2 successQueue, t3)" ..
  have "\<exists>t. transferStep ?d (drop 2 successQueue) =
      (Inr (createMockProcess [] 0), drop 3 successQueue, t)"
    by (simp add: transferStep_def run_defs mock_defs successQueue_def)
  then obtain t4 where h5: "transferStep ?d (drop 2 successQueue) =
      (Inr (createMockProcess [] 0), drop 3 successQueue, t4)" ..
  have "\<exists>es t. manifestStep ?d (drop 3 successQueue) = (Inr es, drop 4 successQueue, t)"
    by (simp add: manifestStep_def run_defs mock_defs successQueue_def)
  then obtain es t5 where h6: "manifestStep ?d (drop 3 successQueue) =
      (Inr es, drop 4 successQueue, t5)" by blast
  have "\<exists>t. persistStep ?d es (drop 4 successQueue) = (Inr (), drop 5 successQueue, t)"
    by (simp add: persistStep_def run_defs mock_defs successQueue_def)
  then obtain t6 where h7: "persistStep ?d es (drop 4 successQueue) =
      (Inr (), drop 5 successQueue, t6)" ..
  have h8: "startProcess ?d (timestampCmd ?d) (drop 5 successQueue) = (Inr ?tp, [])"
    by (simp add: mock_defs successQueue_def)
  have h9: "waitForProcess ?d ?tp 5000 [] = (Inr (), [])"
    by (simp add: mockSandbox_def)
  have h10: "getLogs ?d ?tp [] = (Inr ?tl, [])"
    by (simp add: mock_defs)
  have tok: "trim ''2026-01-27T12:00:00+00:00'' = ''2026-01-27T12:00:00+00:00''"
    by (simp add: trim_def is_ws_def)
  have wf: "well_formed_token (Some ''2026-01-27T12:00:00+00:00'')"
    by (simp add: well_formed_token_def is_digit_def)
  from outcome_decided_by_token [OF mock_configured h2 h3 h4 h5 h6 h7 h8 h9 h10,
      of "\<lambda>p q. Some 1"]
  obtain r s' t where
    "syncToR2 (?d\<lparr>exitCode := \<lambda>p q. Some 1\<rparr>) mockEnvWithR2 successQueue = (Inr r, s', t)"
    "success r = well_formed_token (map_option trim (stdout ?tl))"
    "success r \<longrightarrow> lastSync r = map_option trim (stdout ?tl)"
    by blast
  then show ?thesis
    by (simp add: tok wf)
qed

end
